theory Spec2Isabelle
  imports Main "HOL-Library.AList"
begin

section \<open>The calendar of Python's datetime\<close>

text \<open>
  \<open>get_week_range\<close> works on \<open>datetime\<close> objects. Only the calendar date of such an
  object is ever read (by \<open>weekday\<close>, by the subtraction of whole days and by
  \<open>strftime("%Y-%m-%d")\<close>), so the record keeps year, month and day. The functions
  below follow the pure-Python implementation of the standard library: the proleptic
  Gregorian ordinal, with 0001-01-01 as day 1.
\<close>

record datetime =
  year :: int
  month :: int
  day :: int

datatype exn =
    ValueError string
  | TypeError string
  | OverflowError string
  | OSError string
  | ImportError string
  | AttributeError string
  | KeyError string
  | IndexError string

fun str_exn :: "exn \<Rightarrow> string" where
  "str_exn (ValueError m) = m"
| "str_exn (TypeError m) = m"
| "str_exn (OverflowError m) = m"
| "str_exn (OSError m) = m"
| "str_exn (ImportError m) = m"
| "str_exn (AttributeError m) = m"
| "str_exn (KeyError m) = m"
| "str_exn (IndexError m) = m"

definition MAXORDINAL :: int where
  "MAXORDINAL = 3652059"

definition is_leap :: "int \<Rightarrow> bool" where
  "is_leap y = (y mod 4 = 0 \<and> (y mod 100 \<noteq> 0 \<or> y mod 400 = 0))"

definition DAYS_IN_MONTH :: "int list" where
  "DAYS_IN_MONTH = [-1, 31, 28, 31, 30, 31, 30, 31, 31, 30, 31, 30, 31]"

definition DAYS_BEFORE_MONTH :: "int list" where
  "DAYS_BEFORE_MONTH = [-1, 0, 31, 59, 90, 120, 151, 181, 212, 243, 273, 304, 334]"

definition days_before_year :: "int \<Rightarrow> int" where
  "days_before_year y = (y - 1) * 365 + (y - 1) div 4 - (y - 1) div 100 + (y - 1) div 400"

definition days_in_month :: "int \<Rightarrow> int \<Rightarrow> int" where
  "days_in_month y m = (if m = 2 \<and> is_leap y then 29 else DAYS_IN_MONTH ! nat m)"

definition days_before_month :: "int \<Rightarrow> int \<Rightarrow> int" where
  "days_before_month y m = DAYS_BEFORE_MONTH ! nat m + (if m > 2 \<and> is_leap y then 1 else 0)"

definition ymd2ord :: "int \<Rightarrow> int \<Rightarrow> int \<Rightarrow> int" where
  "ymd2ord y m d = days_before_year y + days_before_month y m + d"

definition ord2ymd :: "int \<Rightarrow> int \<times> int \<times> int" where
  "ord2ymd ordinal =
     (let n = ordinal - 1;
          n400 = n div 146097; n = n mod 146097;
          y = n400 * 400 + 1;
          n100 = n div 36524; n = n mod 36524;
          n4 = n div 1461; n = n mod 1461;
          n1 = n div 365; n = n mod 365;
          y = y + n100 * 100 + n4 * 4 + n1
      in if n1 = 4 \<or> n100 = 4 then (y - 1, 12, 31)
         else
           let leapyear = (n1 = 3 \<and> (n4 \<noteq> 24 \<or> n100 = 3));
               m = (n + 50) div 32;
               preceding = DAYS_BEFORE_MONTH ! nat m + (if m > 2 \<and> leapyear then 1 else 0)
           in if preceding > n
              then (y, m - 1,
                    n - (preceding - (DAYS_IN_MONTH ! nat (m - 1)
                                      + (if m - 1 = 2 \<and> leapyear then 1 else 0))) + 1)
              else (y, m, n - preceding + 1))"

definition valid_date :: "datetime \<Rightarrow> bool" where
  "valid_date d = (1 \<le> year d \<and> year d \<le> 9999 \<and> 1 \<le> month d \<and> month d \<le> 12
                   \<and> 1 \<le> day d \<and> day d \<le> days_in_month (year d) (month d))"

definition toordinal :: "datetime \<Rightarrow> int" where
  "toordinal d = ymd2ord (year d) (month d) (day d)"

definition fromordinal :: "int \<Rightarrow> datetime" where
  "fromordinal n = (case ord2ymd n of (y, m, d) \<Rightarrow> \<lparr>year = y, month = m, day = d\<rparr>)"

definition weekday :: "datetime \<Rightarrow> int" where
  "weekday d = (toordinal d + 6) mod 7"

subsection \<open>Parsing and printing dates\<close>

text \<open>
  \<open>datetime.strptime(s, "%Y-%m-%d")\<close>. The library compiles the format to the regular
  expression \<open>(\d\d\d\d)-(1[0-2]|0[1-9]|[1-9])-(3[0-1]|[1-2]\d|0[1-9]|[1-9]| [1-9])\<close>,
  matches it at the start of the string and raises \<open>ValueError\<close> when it does not
  match, when text remains after the match, or when the three numbers are not a date.
  In the month group a two-character alternative is followed by a digit only if the
  one-character alternative is too, so trying the alternatives in their order, without
  backtracking, finds the same match. Strings are lists of 8-bit characters, so the
  digits are the ASCII digits.
\<close>

definition in_chars :: "char \<Rightarrow> string \<Rightarrow> bool" where
  "in_chars c cs = (c \<in> set cs)"

definition is_digit :: "char \<Rightarrow> bool" where
  "is_digit c = in_chars c ''0123456789''"

definition digit_val :: "char \<Rightarrow> int" where
  "digit_val c = int (of_char c) - 48"

fun parse_month :: "string \<Rightarrow> (int \<times> string) option" where
  "parse_month (a # b # r) =
     (if a = CHR ''1'' \<and> in_chars b ''012'' then Some (10 + digit_val b, r)
      else if a = CHR ''0'' \<and> in_chars b ''123456789'' then Some (digit_val b, r)
      else if in_chars a ''123456789'' then Some (digit_val a, b # r)
      else None)"
| "parse_month [a] = (if in_chars a ''123456789'' then Some (digit_val a, []) else None)"
| "parse_month [] = None"

fun parse_day :: "string \<Rightarrow> (int \<times> string) option" where
  "parse_day (a # b # r) =
     (if a = CHR ''3'' \<and> in_chars b ''01'' then Some (30 + digit_val b, r)
      else if in_chars a ''12'' \<and> is_digit b then Some (10 * digit_val a + digit_val b, r)
      else if a = CHR ''0'' \<and> in_chars b ''123456789'' then Some (digit_val b, r)
      else if in_chars a ''123456789'' then Some (digit_val a, b # r)
      else if a = CHR '' '' \<and> in_chars b ''123456789'' then Some (digit_val b, r)
      else None)"
| "parse_day [a] = (if in_chars a ''123456789'' then Some (digit_val a, []) else None)"
| "parse_day [] = None"

definition no_match :: "string \<Rightarrow> exn + datetime" where
  "no_match s = Inl (ValueError (''time data '' @ [CHR 0x27] @ s @ [CHR 0x27]
                                 @ '' does not match format '' @ [CHR 0x27] @ ''%Y-%m-%d''
                                 @ [CHR 0x27]))"

definition make_date :: "int \<Rightarrow> int \<Rightarrow> int \<Rightarrow> exn + datetime" where
  "make_date y m d =
     (if y < 1 then Inl (ValueError ''year 0 is out of range'')
      else if d > days_in_month y m then Inl (ValueError ''day is out of range for month'')
      else Inr \<lparr>year = y, month = m, day = d\<rparr>)"

fun strptime :: "string \<Rightarrow> exn + datetime" where
  "strptime (y1 # y2 # y3 # y4 # sep1 # r) =
     (if is_digit y1 \<and> is_digit y2 \<and> is_digit y3 \<and> is_digit y4 \<and> sep1 = CHR ''-'' then
        (case parse_month r of
           Some (m, sep2 # r') \<Rightarrow>
             if sep2 = CHR ''-'' then
               (case parse_day r' of
                  Some (d, rest) \<Rightarrow>
                    if rest \<noteq> [] then Inl (ValueError (''unconverted data remains: '' @ rest))
                    else make_date (1000 * digit_val y1 + 100 * digit_val y2
                                    + 10 * digit_val y3 + digit_val y4) m d
                | None \<Rightarrow> no_match (y1 # y2 # y3 # y4 # sep1 # r))
             else no_match (y1 # y2 # y3 # y4 # sep1 # r)
         | _ \<Rightarrow> no_match (y1 # y2 # y3 # y4 # sep1 # r))
      else no_match (y1 # y2 # y3 # y4 # sep1 # r))"
| "strptime s = no_match s"

text \<open>
  \<open>strftime("%Y-%m-%d")\<close> prints the year on four digits and month and day on two, as
  the library documents it (the C library of some platforms prints a year below 1000
  without the leading zeros; from the year 1000 on all agree). \<open>strftime("%A")\<close> is
  the English name of the weekday.
\<close>

definition dec_digit :: "int \<Rightarrow> char" where
  "dec_digit n = ''0123456789'' ! nat n"

definition pad2 :: "int \<Rightarrow> string" where
  "pad2 n = [dec_digit (n div 10 mod 10), dec_digit (n mod 10)]"

definition pad4 :: "int \<Rightarrow> string" where
  "pad4 n = [dec_digit (n div 1000 mod 10), dec_digit (n div 100 mod 10),
             dec_digit (n div 10 mod 10), dec_digit (n mod 10)]"

definition strftime :: "datetime \<Rightarrow> string" where
  "strftime d = pad4 (year d) @ ''-'' @ pad2 (month d) @ ''-'' @ pad2 (day d)"

definition day_name :: "datetime \<Rightarrow> string" where
  "day_name d = [''Monday'', ''Tuesday'', ''Wednesday'', ''Thursday'', ''Friday'',
                 ''Saturday'', ''Sunday''] ! nat (weekday d)"

text \<open>
  \<open>d - timedelta(days=k)\<close>: the library adds the days to the ordinal and raises
  \<open>OverflowError\<close> when the result leaves the range of dates.
\<close>

definition minus_days :: "datetime \<Rightarrow> int \<Rightarrow> exn + datetime" where
  "minus_days d k =
     (let n = toordinal d - k
      in if 0 < n \<and> n \<le> MAXORDINAL then Inr (fromordinal n)
         else Inl (OverflowError ''date value out of range''))"

section \<open>The reporting window\<close>

text \<open>
  \<open>get_week_range\<close> (server.py, lines 56 to 88). The first argument is the value of
  \<open>datetime.now()\<close>. An argument counts as given when it is neither \<open>None\<close> nor
  the empty string, which is what \<open>if start_date:\<close> tests.
\<close>

definition given :: "string option \<Rightarrow> bool" where
  "given a = (case a of None \<Rightarrow> False | Some s \<Rightarrow> s \<noteq> [])"

definition get_week_range ::
    "datetime \<Rightarrow> string option \<Rightarrow> string option \<Rightarrow> exn + (string \<times> string)" where
  "get_week_range now start_date end_date =
     (case (if given start_date then
              (case strptime (the start_date) of
                 Inl e \<Rightarrow> Inl e
               | Inr start \<Rightarrow>
                   if weekday start \<noteq> 2
                   then Inl (ValueError (''start_date must be a Wednesday. '' @ the start_date
                                         @ '' is a '' @ day_name start))
                   else Inr start)
            else Inr now) of
        Inl e \<Rightarrow> Inl e
      | Inr start \<Rightarrow>
          (case (if given end_date then
                   (case strptime (the end_date) of
                      Inl e \<Rightarrow> Inl e
                    | Inr end_d \<Rightarrow>
                        if weekday end_d \<noteq> 1
                        then Inl (ValueError (''end_date must be a Tuesday. '' @ the end_date
                                              @ '' is a '' @ day_name end_d))
                        else Inr end_d)
                 else minus_days start 7) of
             Inl e \<Rightarrow> Inl e
           | Inr end_d \<Rightarrow> Inr (strftime start, strftime end_d)))"

section \<open>Configuration values\<close>

text \<open>
  Override fragments are what the JSON arguments of a tool call produce, and the parts of
  a configuration document are what \<open>yaml.safe_load\<close> produces: null, booleans,
  integers, strings, lists and mappings. A mapping is an association list in insertion
  order, as a Python \<open>dict\<close> is; its keys are the hashable scalars (\<open>True\<close> and \<open>1\<close>
  are one key in Python, so a boolean key is stored as its integer). Floating-point
  numbers are left out. A \<open>val\<close> is a tree; the graph that a YAML document with anchors
  and aliases is, is modelled in the next section.
\<close>

datatype key = KNull | KInt int | KStr string

datatype val =
    VNull
  | VBool bool
  | VInt int
  | VStr string
  | VList "val list"
  | VDict "(key \<times> val) list"

type_synonym dict = "(key \<times> val) list"

fun truthy :: "val \<Rightarrow> bool" where
  "truthy VNull = False"
| "truthy (VBool b) = b"
| "truthy (VInt i) = (i \<noteq> 0)"
| "truthy (VStr s) = (s \<noteq> [])"
| "truthy (VList xs) = (xs \<noteq> [])"
| "truthy (VDict d) = (d \<noteq> [])"

text \<open>
  \<open>deep_update\<close>, the local function of \<open>merge_config_with_defaults\<close> (server.py, lines
  278 to 284), on a base mapping that is held by value: no other key leads to it, so
  that changing it in place and replacing it are the same. \<open>base[key] = value\<close> replaces
  the value of a key that is present, in its place, and appends a key that is new:
  \<open>AList.update\<close>.
\<close>

fun deep_update_tree :: "dict \<Rightarrow> dict \<Rightarrow> dict" where
  "deep_update_tree base [] = base"
| "deep_update_tree base ((k, v) # updates) =
     deep_update_tree
       (case v of
          VDict vd \<Rightarrow>
            (case map_of base k of
               Some (VDict bd) \<Rightarrow> AList.update k (VDict (deep_update_tree bd vd)) base
             | _ \<Rightarrow> AList.update k v base)
        | _ \<Rightarrow> AList.update k v base)
       updates"

text \<open>
  \<open>d.update(value)\<close>, as \<open>load_config_with_overrides\<close> calls it on a value of any
  kind. A mapping is merged key by key. Anything else is read as a sequence of key/value
  pairs: a scalar is not iterable (\<open>TypeError\<close>), and every element of a list or string
  must itself be a sequence of length two whose first component is hashable.
\<close>

fun val_of_key :: "key \<Rightarrow> val" where
  "val_of_key KNull = VNull"
| "val_of_key (KInt i) = VInt i"
| "val_of_key (KStr s) = VStr s"

fun key_of :: "val \<Rightarrow> exn + key" where
  "key_of VNull = Inr KNull"
| "key_of (VBool b) = Inr (KInt (if b then 1 else 0))"
| "key_of (VInt i) = Inr (KInt i)"
| "key_of (VStr s) = Inr (KStr s)"
| "key_of (VList xs) = Inl (TypeError (''unhashable type: '' @ [CHR 0x27] @ ''list'' @ [CHR 0x27]))"
| "key_of (VDict d) = Inl (TypeError (''unhashable type: '' @ [CHR 0x27] @ ''dict'' @ [CHR 0x27]))"

fun show_nat :: "nat \<Rightarrow> string" where
  "show_nat n = (if n < 10 then [dec_digit (int n)]
                 else show_nat (n div 10) @ [dec_digit (int (n mod 10))])"

declare show_nat.simps [simp del]

definition bad_length :: "nat \<Rightarrow> nat \<Rightarrow> exn" where
  "bad_length i n = ValueError (''dictionary update sequence element #'' @ show_nat i
                                @ '' has length '' @ show_nat n @ ''; 2 is required'')"

fun as_pair :: "val \<Rightarrow> nat \<Rightarrow> exn + (val \<times> val)" where
  "as_pair (VList ys) i =
     (case ys of [k, v] \<Rightarrow> Inr (k, v) | _ \<Rightarrow> Inl (bad_length i (length ys)))"
| "as_pair (VStr s) i =
     (case s of [a, b] \<Rightarrow> Inr (VStr [a], VStr [b]) | _ \<Rightarrow> Inl (bad_length i (length s)))"
| "as_pair (VDict d) i =
     (case d of [(k1, _), (k2, _)] \<Rightarrow> Inr (val_of_key k1, val_of_key k2)
      | _ \<Rightarrow> Inl (bad_length i (length d)))"
| "as_pair _ i =
     Inl (TypeError (''cannot convert dictionary update sequence element #'' @ show_nat i
                     @ '' to a sequence''))"

fun update_from_seq :: "dict \<Rightarrow> val list \<Rightarrow> nat \<Rightarrow> exn + dict" where
  "update_from_seq d [] i = Inr d"
| "update_from_seq d (x # xs) i =
     (case as_pair x i of
        Inl e \<Rightarrow> Inl e
      | Inr (k, v) \<Rightarrow>
          (case key_of k of
             Inl e \<Rightarrow> Inl e
           | Inr kk \<Rightarrow> update_from_seq (AList.update kk v d) xs (Suc i)))"

definition not_iterable :: "string \<Rightarrow> exn" where
  "not_iterable t = TypeError ([CHR 0x27] @ t @ [CHR 0x27] @ '' object is not iterable'')"

fun dict_update :: "dict \<Rightarrow> val \<Rightarrow> exn + dict" where
  "dict_update d (VDict u) = Inr (fold (\<lambda>(k, v). AList.update k v) u d)"
| "dict_update d VNull = Inl (not_iterable ''NoneType'')"
| "dict_update d (VBool b) = Inl (not_iterable ''bool'')"
| "dict_update d (VInt i) = Inl (not_iterable ''int'')"
| "dict_update d (VStr s) = update_from_seq d (map (\<lambda>c. VStr [c]) s) 0"
| "dict_update d (VList xs) = update_from_seq d xs 0"

section \<open>Documents with shared mappings\<close>

text \<open>
  What \<open>yaml.safe_load\<close> returns is a graph of Python objects: an anchor with aliases
  makes one mapping object the value of several keys, and \<open>deep_update\<close> and \<open>update\<close>
  change a mapping object in place. A part of a document is therefore a \<open>pval\<close>: a
  value held by value (\<open>Tree\<close>), a reference \<open>Ref a\<close> to the mapping object at the
  address \<open>a\<close> of a store, or a list whose elements may hold references (\<open>Items\<close>). The
  loader hands out by reference every mapping that can be reached along more than one
  path, and may hand out any other mapping either way. A mapping held by value can be
  reached along one path only, which is why changing it in place and replacing it cannot
  be told apart; the values that an override inserts are of this kind, since the objects
  of the override fragment are not read again once they are inserted. Every address of a store holds a mapping, the empty one until it is
  written. A document is its root and its store.
\<close>

type_synonym addr = nat

datatype pval = Tree val | Ref addr | Items "pval list"

type_synonym obj = "(key \<times> pval) list"

type_synonym store = "addr \<Rightarrow> obj"

type_synonym doc = "pval \<times> store"

definition no_objects :: store where
  "no_objects = (\<lambda>a. [])"

definition empty_doc :: doc where
  "empty_doc = (Tree (VDict []), no_objects)"

fun doc_truthy :: "doc \<Rightarrow> bool" where
  "doc_truthy (Tree v, s) = truthy v"
| "doc_truthy (Ref a, s) = (s a \<noteq> [])"
| "doc_truthy (Items xs, s) = (xs \<noteq> [])"

fun val_type_name :: "val \<Rightarrow> string" where
  "val_type_name VNull = ''NoneType''"
| "val_type_name (VBool b) = ''bool''"
| "val_type_name (VInt i) = ''int''"
| "val_type_name (VStr s) = ''str''"
| "val_type_name (VList xs) = ''list''"
| "val_type_name (VDict d) = ''dict''"

fun type_name :: "pval \<Rightarrow> string" where
  "type_name (Tree v) = val_type_name v"
| "type_name (Ref a) = ''dict''"
| "type_name (Items xs) = ''list''"

fun key_type_name :: "key \<Rightarrow> string" where
  "key_type_name KNull = ''NoneType''"
| "key_type_name (KInt i) = ''int''"
| "key_type_name (KStr s) = ''str''"

text \<open>
  \<open>deep_update\<close> (lines 278 to 284) on the mapping object at an address. Every step reads
  the object as it is in the store at that moment, since a recursive call may have
  changed it. When the value under the key is a mapping object, the recursive call
  changes that object, wherever else it is reachable from, and \<open>base[key] = ...\<close> then
  stores the reference under the key again.
\<close>

fun deep_update_at :: "store \<Rightarrow> addr \<Rightarrow> dict \<Rightarrow> store" where
  "deep_update_at s a [] = s"
| "deep_update_at s a ((k, v) # updates) =
     deep_update_at
       (case v of
          VDict vd \<Rightarrow>
            (case map_of (s a) k of
               Some (Ref b) \<Rightarrow>
                 (let s' = deep_update_at s b vd
                  in s'(a := AList.update k (Ref b) (s' a)))
             | Some (Tree (VDict bd)) \<Rightarrow>
                 s(a := AList.update k (Tree (VDict (deep_update_tree bd vd))) (s a))
             | _ \<Rightarrow> s(a := AList.update k (Tree v) (s a)))
        | _ \<Rightarrow> s(a := AList.update k (Tree v) (s a)))
       a updates"

text \<open>
  \<open>deep_update\<close> on a base that is no mapping, which is what the source calls it with
  when the defaults file holds a list or a scalar. On a scalar the first item raises:
  \<open>key in base\<close> when the value is a mapping, \<open>base[key] = value\<close> otherwise. A string
  answers \<open>key in base\<close> as a substring test.
\<close>

definition no_item_assignment :: "string \<Rightarrow> exn" where
  "no_item_assignment t =
     TypeError ([CHR 0x27] @ t @ [CHR 0x27] @ '' object does not support item assignment'')"

definition not_a_container :: "string \<Rightarrow> exn" where
  "not_a_container t =
     TypeError (''argument of type '' @ [CHR 0x27] @ t @ [CHR 0x27] @ '' is not iterable'')"

fun starts_with :: "string \<Rightarrow> string \<Rightarrow> bool" where
  "starts_with [] s = True"
| "starts_with (c # cs) [] = False"
| "starts_with (c # cs) (d # ds) = (c = d \<and> starts_with cs ds)"

fun is_substring :: "string \<Rightarrow> string \<Rightarrow> bool" where
  "is_substring p [] = (p = [])"
| "is_substring p (c # cs) = (starts_with p (c # cs) \<or> is_substring p cs)"

fun item_error :: "val \<Rightarrow> key \<Rightarrow> val \<Rightarrow> exn" where
  "item_error (VStr s) k v =
     (case v of
        VDict vd \<Rightarrow>
          (case k of
             KStr p \<Rightarrow>
               if is_substring p s
               then TypeError (''string indices must be integers, not '' @ [CHR 0x27] @ ''str''
                               @ [CHR 0x27])
               else no_item_assignment ''str''
           | _ \<Rightarrow>
               TypeError ([CHR 0x27] @ ''in <string>'' @ [CHR 0x27]
                          @ '' requires string as left operand, not '' @ key_type_name k))
      | _ \<Rightarrow> no_item_assignment ''str'')"
| "item_error b k v =
     (case v of
        VDict vd \<Rightarrow> not_a_container (val_type_name b)
      | _ \<Rightarrow> no_item_assignment (val_type_name b))"

text \<open>
  On a list, a key that is no integer raises; an integer key is an index, counted from
  the end when it is negative, and the item is stored at that index, after a recursive
  call when the override value is a mapping, the list holds the key as an element and
  holds a mapping at the index.
\<close>

definition list_index :: "int \<Rightarrow> nat \<Rightarrow> nat option" where
  "list_index i n =
     (if 0 \<le> i \<and> i < int n then Some (nat i)
      else if - int n \<le> i \<and> i < 0 then Some (nat (i + int n))
      else None)"

fun equals_int :: "int \<Rightarrow> pval \<Rightarrow> bool" where
  "equals_int i (Tree (VInt j)) = (i = j)"
| "equals_int i (Tree (VBool b)) = (i = (if b then 1 else 0))"
| "equals_int i x = False"

definition list_assign :: "store \<Rightarrow> pval list \<Rightarrow> int \<Rightarrow> val \<Rightarrow> exn + (pval list \<times> store)" where
  "list_assign s xs i v =
     (case list_index i (length xs) of
        None \<Rightarrow> Inl (IndexError ''list assignment index out of range'')
      | Some j \<Rightarrow> Inr (xs[j := Tree v], s))"

definition list_step ::
    "store \<Rightarrow> pval list \<Rightarrow> key \<Rightarrow> val \<Rightarrow> exn + (pval list \<times> store)" where
  "list_step s xs k v =
     (case k of
        KInt i \<Rightarrow>
          (case v of
             VDict vd \<Rightarrow>
               if list_ex (equals_int i) xs then
                 (case list_index i (length xs) of
                    None \<Rightarrow> Inl (IndexError ''list index out of range'')
                  | Some j \<Rightarrow>
                      (case xs ! j of
                         Ref b \<Rightarrow> Inr (xs, deep_update_at s b vd)
                       | Tree (VDict bd) \<Rightarrow>
                           Inr (xs[j := Tree (VDict (deep_update_tree bd vd))], s)
                       | _ \<Rightarrow> list_assign s xs i v))
               else list_assign s xs i v
           | _ \<Rightarrow> list_assign s xs i v)
      | _ \<Rightarrow>
          Inl (TypeError (''list indices must be integers or slices, not ''
                          @ key_type_name k)))"

fun deep_update_list :: "store \<Rightarrow> pval list \<Rightarrow> dict \<Rightarrow> exn + doc" where
  "deep_update_list s xs [] = Inr (Items xs, s)"
| "deep_update_list s xs ((k, v) # updates) =
     (case list_step s xs k v of
        Inl e \<Rightarrow> Inl e
      | Inr (xs', s') \<Rightarrow> deep_update_list s' xs' updates)"

text \<open>
  \<open>deep_update(base, updates)\<close> as \<open>merge_config_with_defaults\<close> calls it, on the root of
  the document it has loaded, whatever that is. With no item to apply the loop does not
  run and the base is returned as it is.
\<close>

fun deep_update :: "doc \<Rightarrow> dict \<Rightarrow> exn + doc" where
  "deep_update base [] = Inr base"
| "deep_update (Ref a, s) updates = Inr (Ref a, deep_update_at s a updates)"
| "deep_update (Tree (VDict d), s) updates = Inr (Tree (VDict (deep_update_tree d updates)), s)"
| "deep_update (Tree (VList xs), s) updates = deep_update_list s (map Tree xs) updates"
| "deep_update (Items xs, s) updates = deep_update_list s xs updates"
| "deep_update (Tree b, s) ((k, v) # updates) = Inl (item_error b k v)"

text \<open>
  \<open>base.update(value)\<close> on the root of a document, as \<open>load_config_with_overrides\<close> calls
  it. Only a mapping has the method. The items that \<open>update\<close> inserts do not depend on
  the mapping they go into, so for a mapping object they are computed first, by
  \<open>dict_update\<close> on the empty mapping, and then stored in the object in that order.
\<close>

definition no_update_attribute :: "string \<Rightarrow> exn" where
  "no_update_attribute t =
     AttributeError ([CHR 0x27] @ t @ [CHR 0x27] @ '' object has no attribute ''
                     @ [CHR 0x27] @ ''update'' @ [CHR 0x27])"

fun doc_update :: "doc \<Rightarrow> val \<Rightarrow> exn + doc" where
  "doc_update (Tree (VDict d), s) value =
     (case dict_update d value of
        Inl e \<Rightarrow> Inl e
      | Inr d' \<Rightarrow> Inr (Tree (VDict d'), s))"
| "doc_update (Ref a, s) value =
     (case dict_update [] value of
        Inl e \<Rightarrow> Inl e
      | Inr items \<Rightarrow> Inr (Ref a, s(a := fold (\<lambda>(k, v). AList.update k (Tree v)) items (s a))))"
| "doc_update (b, s) value = Inl (no_update_attribute (type_name b))"

text \<open>\<open>config[k1][k2]...\<close>: the value that a path of keys leads to in a document.\<close>

fun item_at :: "store \<Rightarrow> pval \<Rightarrow> key \<Rightarrow> pval option" where
  "item_at s (Ref a) k = map_of (s a) k"
| "item_at s (Tree (VDict d)) k = map_option Tree (map_of d k)"
| "item_at s x k = None"

fun value_at :: "store \<Rightarrow> pval \<Rightarrow> key list \<Rightarrow> pval option" where
  "value_at s x [] = Some x"
| "value_at s x (k # ks) =
     (case item_at s x k of None \<Rightarrow> None | Some y \<Rightarrow> value_at s y ks)"

section \<open>The world the pipeline runs in\<close>

text \<open>
  What the pipeline reads from outside is a record of oracles: the clock, the process
  environment, the two report generators of the \<open>team_reports\<close> library, the YAML and
  \<open>str.format\<close> library calls, and whether a file-system call fails. Every theorem
  below holds for all of them. What the pipeline changes is the state \<open>world\<close>: the
  files, the directories made, the log, and the trace of calls to the generators.
  Exceptions are the subclasses of \<open>Exception\<close>, which is what the handlers of the
  source catch.
\<close>

datatype level = INFO | WARNING | ERROR

datatype call =
    JiraCall string string string string string string
  | GitHubCall string string string string

datatype write_outcome =
    Written
  | OpenFailed exn
  | WriteFailed exn string

record world =
  files :: "string \<Rightarrow> string option"
  dirs :: "string set"
  temps :: nat
  log :: "(level \<times> string) list"
  calls :: "call list"

record env =
  server_dir :: string
  now :: datetime
  stamp :: string
  getenv :: "string \<Rightarrow> string option"
  mkdir_error :: "string \<Rightarrow> exn option"
  read_error :: "string \<Rightarrow> exn option"
  write_result :: "string \<Rightarrow> string \<Rightarrow> write_outcome"
  unlink_error :: "string \<Rightarrow> exn option"
  mkstemp :: "string \<Rightarrow> nat \<Rightarrow> exn + string"
  yaml_safe_load :: "string \<Rightarrow> exn + doc"
  yaml_dump :: "doc \<Rightarrow> string"
  import_error :: "exn option"
  jira_summary :: "(string \<Rightarrow> string option) \<Rightarrow> string \<Rightarrow> string \<Rightarrow> string \<Rightarrow> string
                   \<Rightarrow> string \<Rightarrow> string \<Rightarrow> exn + string"
  github_summary :: "(string \<Rightarrow> string option) \<Rightarrow> string \<Rightarrow> string \<Rightarrow> string \<Rightarrow> string
                     \<Rightarrow> exn + string"
  str_format :: "string \<Rightarrow> string \<Rightarrow> exn + string"

definition logged :: "level \<Rightarrow> string \<Rightarrow> world \<Rightarrow> world" where
  "logged l m w = w\<lparr>log := log w @ [(l, m)]\<rparr>"

definition opt_str :: "string option \<Rightarrow> string" where
  "opt_str a = (case a of None \<Rightarrow> [] | Some s \<Rightarrow> s)"

fun join :: "string \<Rightarrow> string list \<Rightarrow> string" where
  "join sep [] = []"
| "join sep [x] = x"
| "join sep (x # y # r) = x @ sep @ join sep (y # r)"

section \<open>Report files\<close>

text \<open>
  \<open>get_report_path\<close> (lines 152 to 168). A path is its string; \<open>mkdir(exist_ok=True)\<close>
  either raises or leaves the directory in place.
\<close>

definition reports_dir :: "env \<Rightarrow> string" where
  "reports_dir E = server_dir E @ ''/Reports''"

definition get_report_path ::
    "env \<Rightarrow> world \<Rightarrow> string \<Rightarrow> string \<Rightarrow> (exn + string) \<times> world" where
  "get_report_path E w start_date end_date =
     (case mkdir_error E (reports_dir E) of
        Some e \<Rightarrow> (Inl e, w)
      | None \<Rightarrow>
          (Inr (reports_dir E @ ''/'' @ ''Weekly_Report_'' @ start_date @ ''_to_'' @ end_date
                @ ''.md''),
           w\<lparr>dirs := insert (reports_dir E) (dirs w)\<rparr>))"

text \<open>
  Reading a file that was opened with \<open>open(path, 'r')\<close>: in text mode, with the
  default \<open>newline=None\<close>, every carriage return followed by a line feed and every
  other carriage return comes back as one line feed. Writing with \<open>open(path, 'w')\<close>
  stores the text as it is where the line separator of the platform is the line feed,
  which is the platform modelled here.
\<close>

fun universal_newlines :: "string \<Rightarrow> string" where
  "universal_newlines [] = []"
| "universal_newlines [c] = (if c = CHR 0x0D then [CHR 0x0A] else [c])"
| "universal_newlines (c # d # cs) =
     (if c = CHR 0x0D then
        (if d = CHR 0x0A then CHR 0x0A # universal_newlines cs
         else CHR 0x0A # universal_newlines (d # cs))
      else c # universal_newlines (d # cs))"

text \<open>\<open>check_report_exists\<close> (lines 171 to 194).\<close>

definition check_report_exists ::
    "env \<Rightarrow> world \<Rightarrow> string \<Rightarrow> string \<Rightarrow> (exn + string option) \<times> world" where
  "check_report_exists E w start_date end_date =
     (case get_report_path E w start_date end_date of
        (Inl e, w1) \<Rightarrow> (Inl e, w1)
      | (Inr report_path, w1) \<Rightarrow>
          (case files w1 report_path of
             None \<Rightarrow> (Inr None, w1)
           | Some content \<Rightarrow>
               (case read_error E report_path of
                  None \<Rightarrow>
                    (Inr (Some (universal_newlines content)),
                     logged INFO (''Found existing report: '' @ report_path) w1)
                | Some e \<Rightarrow>
                    (Inr None,
                     logged WARNING (''Failed to read existing report: '' @ str_exn e) w1))))"

text \<open>
  \<open>save_report\<close> (lines 197 to 218). Opening the file for writing may fail and leave it
  as it was; the write may fail and leave a part of the content.
\<close>

definition save_report ::
    "env \<Rightarrow> world \<Rightarrow> string \<Rightarrow> string \<Rightarrow> string \<Rightarrow> (exn + string) \<times> world" where
  "save_report E w content start_date end_date =
     (case get_report_path E w start_date end_date of
        (Inl e, w1) \<Rightarrow> (Inl e, w1)
      | (Inr report_path, w1) \<Rightarrow>
          (case write_result E report_path content of
             Written \<Rightarrow>
               (Inr report_path,
                logged INFO (''Saved report to: '' @ report_path)
                  (w1\<lparr>files := (files w1)(report_path \<mapsto> content)\<rparr>))
           | OpenFailed e \<Rightarrow>
               (Inl e, logged ERROR (''Failed to save report: '' @ str_exn e) w1)
           | WriteFailed e part \<Rightarrow>
               (Inl e,
                logged ERROR (''Failed to save report: '' @ str_exn e)
                  (w1\<lparr>files := (files w1)(report_path \<mapsto> part)\<rparr>))))"

section \<open>Configuration\<close>

text \<open>
  Reading a YAML file, \<open>yaml.safe_load(f) or {}\<close> on a file opened in text mode: \<open>open\<close>
  or the read may raise, \<open>yaml.safe_load\<close> may raise, and the document it returns may be
  a mapping, a list or a scalar; a document that is false (an empty file, an empty
  mapping or list, zero, the empty string) is replaced by a new empty mapping.
\<close>

definition load_yaml :: "env \<Rightarrow> string \<Rightarrow> string \<Rightarrow> exn + doc" where
  "load_yaml E path content =
     (case read_error E path of
        Some e \<Rightarrow> Inl e
      | None \<Rightarrow>
          (case yaml_safe_load E (universal_newlines content) of
             Inl e \<Rightarrow> Inl e
           | Inr document \<Rightarrow> Inr (if doc_truthy document then document else empty_doc)))"

text \<open>\<open>create_temp_config_file\<close> (lines 221 to 244).\<close>

definition create_temp_config_file ::
    "env \<Rightarrow> world \<Rightarrow> doc \<Rightarrow> string \<Rightarrow> (exn + string) \<times> world" where
  "create_temp_config_file E w config_dict prefix =
     (case mkstemp E prefix (temps w) of
        Inl e \<Rightarrow> (Inl e, logged ERROR (''Failed to create temp config file: '' @ str_exn e) w)
      | Inr temp_path \<Rightarrow>
          (let w1 = w\<lparr>files := (files w)(temp_path \<mapsto> []), temps := Suc (temps w)\<rparr>
           in case write_result E temp_path (yaml_dump E config_dict) of
                Written \<Rightarrow>
                  (Inr temp_path,
                   logged INFO (''Created temporary config file: '' @ temp_path)
                     (w1\<lparr>files := (files w1)(temp_path \<mapsto> yaml_dump E config_dict)\<rparr>))
              | OpenFailed e \<Rightarrow>
                  (Inl e,
                   logged ERROR (''Failed to create temp config file: '' @ str_exn e) w1)
              | WriteFailed e part \<Rightarrow>
                  (Inl e,
                   logged ERROR (''Failed to create temp config file: '' @ str_exn e)
                     (w1\<lparr>files := (files w1)(temp_path \<mapsto> part)\<rparr>))))"

text \<open>
  \<open>merge_config_with_defaults\<close> (lines 247 to 289). The defaults are the empty mapping
  when the file is missing or cannot be loaded. \<open>deep_update\<close> is called outside the
  handler of the load, so what it raises leaves the function.
\<close>

definition load_defaults :: "env \<Rightarrow> world \<Rightarrow> string \<Rightarrow> doc \<times> world" where
  "load_defaults E w default_config_path =
     (case files w default_config_path of
        None \<Rightarrow> (empty_doc, w)
      | Some content \<Rightarrow>
          (case load_yaml E default_config_path content of
             Inr config \<Rightarrow>
               (config, logged INFO (''Loaded default config from: '' @ default_config_path) w)
           | Inl e \<Rightarrow>
               (empty_doc, logged WARNING (''Could not load default config from ''
                                           @ default_config_path @ '': '' @ str_exn e) w)))"

definition merge_config_with_defaults ::
    "env \<Rightarrow> world \<Rightarrow> (string \<times> val) list option \<Rightarrow> string \<Rightarrow> string
     \<Rightarrow> (exn + doc) \<times> world" where
  "merge_config_with_defaults E w config_overrides default_config_path config_key =
     (case load_defaults E w default_config_path of
        (config, w1) \<Rightarrow>
          (case config_overrides of
             None \<Rightarrow> (Inr config, w1)
           | Some ov \<Rightarrow>
               if ov \<noteq> [] then
                 (case map_of ov config_key of
                    Some (VDict override_values) \<Rightarrow>
                      (case deep_update config override_values of
                         Inl e \<Rightarrow> (Inl e, w1)
                       | Inr merged \<Rightarrow>
                           (Inr merged,
                            logged INFO (''Applied config overrides for '' @ config_key) w1))
                  | _ \<Rightarrow> (Inr config, w1))
               else (Inr config, w1)))"

text \<open>
  \<open>load_config_with_overrides\<close> (lines 91 to 149). Each of the three entries holds the
  document of its file, or the empty mapping; an override for one of them is applied
  with \<open>update\<close>, which the entry has only when it is a mapping, and an override for
  another name is stored as it is.
\<close>

definition load_named_config ::
    "env \<Rightarrow> world \<Rightarrow> string \<Rightarrow> string \<Rightarrow> doc \<times> world" where
  "load_named_config E w name path =
     (case files w path of
        None \<Rightarrow> (empty_doc, w)
      | Some content \<Rightarrow>
          (case load_yaml E path content of
             Inr config \<Rightarrow> (config, logged INFO (''Loaded '' @ name @ '' config from '' @ path) w)
           | Inl e \<Rightarrow>
               (empty_doc,
                logged WARNING (''Failed to load '' @ name @ '' config: '' @ str_exn e) w)))"

fun apply_overrides ::
    "(string \<times> doc) list \<Rightarrow> (string \<times> val) list \<Rightarrow> exn + (string \<times> doc) list" where
  "apply_overrides config [] = Inr config"
| "apply_overrides config ((key, value) # rest) =
     (case map_of config key of
        Some d \<Rightarrow>
          (case doc_update d value of
             Inl e \<Rightarrow> Inl e
           | Inr d' \<Rightarrow> apply_overrides (AList.update key d' config) rest)
      | None \<Rightarrow> apply_overrides (AList.update key (Tree value, no_objects) config) rest)"

definition repr_keys :: "string list \<Rightarrow> string" where
  "repr_keys ks = ''['' @ join '', '' (map (\<lambda>k. [CHR 0x27] @ k @ [CHR 0x27]) ks) @ '']''"

definition load_config_with_overrides ::
    "env \<Rightarrow> world \<Rightarrow> (string \<times> val) list option
     \<Rightarrow> (exn + (string \<times> doc) list) \<times> world" where
  "load_config_with_overrides E w config_overrides =
     (case load_named_config E w ''Jira'' ''config/jira_config.yaml'' of
        (jira, w1) \<Rightarrow>
     (case load_named_config E w1 ''GitHub'' ''config/github_config.yaml'' of
        (github, w2) \<Rightarrow>
     (case load_named_config E w2 ''team'' ''config/team_config.yaml'' of
        (team, w3) \<Rightarrow>
       (let config = [(''jira'', jira), (''github'', github), (''team'', team)]
        in case config_overrides of
             None \<Rightarrow> (Inr config, w3)
           | Some ov \<Rightarrow>
               if ov \<noteq> [] then
                 (case apply_overrides config ov of
                    Inl e \<Rightarrow> (Inl e, w3)
                  | Inr config' \<Rightarrow>
                      (Inr config',
                       logged INFO (''Applied config overrides: '' @ repr_keys (map fst ov)) w3))
               else (Inr config, w3)))))"

section \<open>The pipeline\<close>

text \<open>The default prompt template (lines 39 to 54).\<close>

definition DEFAULT_SUMMARY_PROMPT :: string where
  "DEFAULT_SUMMARY_PROMPT =
     ''Based on the following weekly team report, generate an executive summary highlighting:\<newline>\<newline>''
     @ ''1. Key Accomplishments: Major milestones and completed work\<newline>''
     @ ''2. Team Velocity: Overall productivity and throughput metrics\<newline>''
     @ ''3. Blockers & Risks: Issues requiring attention or escalation\<newline>''
     @ ''4. Notable Trends: Patterns in team performance or workload\<newline>\<newline>''
     @ ''Keep the summary concise (3-5 paragraphs) and action-oriented.\<newline>\<newline>''
     @ ''---\<newline>\<newline>''
     @ ''{report_content}\<newline>\<newline>''
     @ ''---\<newline>\<newline>''
     @ ''Please provide the executive summary:''"

text \<open>
  The texts that \<open>_generate_weekly_status\<close> (lines 939 to 1165) returns or assembles,
  each an f-string of the source.
\<close>

definition existing_report_text :: "string \<Rightarrow> string \<Rightarrow> string" where
  "existing_report_text report_path existing_report =
     ''**Found existing report (use regenerate=true to recreate):**\<newline>\<newline>''
     @ ''**File:** '' @ report_path @ ''\<newline>\<newline>''
     @ ''---\<newline>\<newline>'' @ existing_report"

definition missing_credentials_text :: "string list \<Rightarrow> string" where
  "missing_credentials_text missing_creds =
     ''Error: Missing required credentials: '' @ join '', '' missing_creds @ ''\<newline>\<newline>''
     @ ''Please set these environment variables in your .env file or pass github_token as a parameter.''"

definition import_error_text :: "string \<Rightarrow> string" where
  "import_error_text m =
     ''Error: Failed to import team-reports library. Please ensure it'' @ [CHR 0x27]
     @ ''s installed: '' @ m"

definition jira_error_text :: "exn \<Rightarrow> string" where
  "jira_error_text e = ''**Error generating Jira report:** '' @ str_exn e @ ''\<newline>\<newline>''"

definition github_error_text :: "exn \<Rightarrow> string" where
  "github_error_text e = ''**Error generating GitHub report:** '' @ str_exn e @ ''\<newline>\<newline>''"

definition combined_report_text :: "string \<Rightarrow> string \<Rightarrow> string \<Rightarrow> string \<Rightarrow> string \<Rightarrow> string" where
  "combined_report_text calc_start_date calc_end_date jira_report github_report generated =
     ''# Weekly Team Status Report\<newline>''
     @ ''## Period: '' @ calc_start_date @ '' to '' @ calc_end_date @ ''\<newline>''
     @ ''\<newline>---\<newline>\<newline>''
     @ jira_report @ ''\<newline>''
     @ ''\<newline>---\<newline>\<newline>''
     @ github_report @ ''\<newline>''
     @ ''\<newline>---\<newline>\<newline>''
     @ ''*Report generated: '' @ generated @ ''*\<newline>''"

definition summary_text :: "string \<Rightarrow> string" where
  "summary_text prompt =
     ''\<newline>\<newline>---\<newline>\<newline>''
     @ ''## Executive Summary\<newline>\<newline>''
     @ ''> **Note:** To generate an AI-powered executive summary, process the above report with the following prompt:\<newline>\<newline>''
     @ prompt @ ''\<newline>\<newline>''"

definition save_error_text :: "exn \<Rightarrow> string \<Rightarrow> string" where
  "save_error_text e combined_report =
     ''Error: Failed to save report: '' @ str_exn e @ ''\<newline>\<newline>''
     @ ''Report content:\<newline>\<newline>'' @ combined_report"

definition success_text :: "string \<Rightarrow> string \<Rightarrow> string \<Rightarrow> string \<Rightarrow> string" where
  "success_text calc_start_date calc_end_date report_path combined_report =
     ''**Weekly status report generated successfully!**\<newline>\<newline>''
     @ ''**Period:** '' @ calc_start_date @ '' to '' @ calc_end_date @ ''\<newline>''
     @ ''**File:** '' @ report_path @ ''\<newline>''
     @ ''**Size:** '' @ show_nat (length combined_report) @ '' characters\<newline>\<newline>''
     @ ''---\<newline>\<newline>'' @ combined_report"

text \<open>The outermost handler (lines 1163 to 1165).\<close>

definition outer_error :: "exn \<Rightarrow> world \<Rightarrow> string \<times> world" where
  "outer_error e w =
     (''Error generating weekly status: '' @ str_exn e,
      logged ERROR (''Error generating weekly status: '' @ str_exn e) w)"

text \<open>
  The cache check (lines 972 to 982). \<open>if existing_report:\<close> is false for \<open>None\<close> and
  for the empty string.
\<close>

definition cache_lookup ::
    "env \<Rightarrow> world \<Rightarrow> bool \<Rightarrow> string \<Rightarrow> string \<Rightarrow> (exn + string option) \<times> world" where
  "cache_lookup E w regenerate calc_start_date calc_end_date =
     (if \<not> regenerate then
        (case check_report_exists E w calc_start_date calc_end_date of
           (Inl e, w1) \<Rightarrow> (Inl e, w1)
         | (Inr existing_report, w1) \<Rightarrow>
             if given existing_report then
               (case get_report_path E w1 calc_start_date calc_end_date of
                  (Inl e, w2) \<Rightarrow> (Inl e, w2)
                | (Inr report_path, w2) \<Rightarrow>
                    (Inr (Some (existing_report_text report_path (opt_str existing_report))), w2))
             else (Inr None, w1))
      else (Inr None, w))"

text \<open>The credential check (lines 987 to 1005).\<close>

definition missing_creds ::
    "string option \<Rightarrow> string option \<Rightarrow> string option \<Rightarrow> string option \<Rightarrow> string list" where
  "missing_creds jira_server jira_email jira_api_token github_token =
     (if \<not> given jira_server then [''JIRA_SERVER''] else [])
     @ (if \<not> given jira_email then [''JIRA_EMAIL''] else [])
     @ (if \<not> given jira_api_token then [''JIRA_API_TOKEN''] else [])
     @ (if \<not> given github_token then [''GITHUB_TOKEN''] else [])"

text \<open>
  One configuration file for a generator (lines 1034 to 1041, and 1044 to 1051): the
  merged configuration is written to a temporary file unless it is false
  (\<open>if jira_config:\<close>). The result is the file to hand to the generator and what was
  added to \<open>temp_files_to_cleanup\<close>; a path is added only when
  \<open>create_temp_config_file\<close> has returned it.
\<close>

definition prepare_config ::
    "env \<Rightarrow> world \<Rightarrow> (string \<times> val) list option \<Rightarrow> string \<Rightarrow> string \<Rightarrow> string
     \<Rightarrow> (exn + string) \<times> string list \<times> world" where
  "prepare_config E w config_overrides config_file config_key prefix =
     (case merge_config_with_defaults E w config_overrides config_file config_key of
        (Inl e, w1) \<Rightarrow> (Inl e, [], w1)
      | (Inr config, w1) \<Rightarrow>
          if doc_truthy config then
            (case create_temp_config_file E w1 config prefix of
               (Inl e, w2) \<Rightarrow> (Inl e, [], w2)
             | (Inr temp_path, w2) \<Rightarrow> (Inr temp_path, [temp_path], w2))
          else (Inr config_file, [], w1))"

text \<open>
  The two generator calls (lines 1053 to 1086), each in its own handler. A call is
  recorded in the trace before its outcome is known.
\<close>

definition gather ::
    "env \<Rightarrow> world \<Rightarrow> string \<Rightarrow> string \<Rightarrow> string \<Rightarrow> string \<Rightarrow> string \<Rightarrow> string \<Rightarrow> string
     \<Rightarrow> string \<Rightarrow> (string \<times> string) \<times> world" where
  "gather E w jira_config_file github_config_file jira_server jira_email jira_api_token
       github_token calc_start_date calc_end_date =
     (let w1 = logged INFO (''Generating Jira weekly report using config: '' @ jira_config_file) w;
          w2 = w1\<lparr>calls := calls w1 @ [JiraCall jira_config_file jira_server jira_email
                                              jira_api_token calc_start_date calc_end_date]\<rparr>;
          (jira_report, w3) =
            (case jira_summary E (files w2) jira_config_file jira_server jira_email
                    jira_api_token calc_start_date calc_end_date of
               Inr r \<Rightarrow>
                 (r, logged INFO (''Generated Jira report: '' @ show_nat (length r)
                                  @ '' characters'') w2)
             | Inl e \<Rightarrow>
                 (jira_error_text e,
                  logged ERROR (''Failed to generate Jira report: '' @ str_exn e) w2));
          w4 = logged INFO (''Generating GitHub weekly report using config: ''
                            @ github_config_file) w3;
          w5 = w4\<lparr>calls := calls w4 @ [GitHubCall github_config_file github_token
                                                calc_start_date calc_end_date]\<rparr>;
          (github_report, w6) =
            (case github_summary E (files w5) github_config_file github_token
                    calc_start_date calc_end_date of
               Inr r \<Rightarrow>
                 (r, logged INFO (''Generated GitHub report: '' @ show_nat (length r)
                                  @ '' characters'') w5)
             | Inl e \<Rightarrow>
                 (github_error_text e,
                  logged ERROR (''Failed to generate GitHub report: '' @ str_exn e) w5))
      in ((jira_report, github_report), w6))"

text \<open>
  The configuration files of a run (lines 1025 to 1051): the default files, or, when
  overrides are given, a temporary file for each generator whose merged configuration is
  not empty. The result carries \<open>temp_files_to_cleanup\<close> as it stands when the block is
  left, also when a file could not be created.
\<close>

definition prepare_files ::
    "env \<Rightarrow> world \<Rightarrow> (string \<times> val) list option
     \<Rightarrow> (exn + string \<times> string) \<times> string list \<times> world" where
  "prepare_files E w config_overrides =
     (let jira_config_file = server_dir E @ ''/config/jira_config.yaml'';
          github_config_file = server_dir E @ ''/config/github_config.yaml''
      in if config_overrides \<noteq> None \<and> config_overrides \<noteq> Some [] then
           (case prepare_config E w config_overrides jira_config_file ''jira'' ''jira_mcp_'' of
              (Inl e, t1, w1) \<Rightarrow> (Inl e, t1, w1)
            | (Inr jira_file, t1, w1) \<Rightarrow>
                (case prepare_config E w1 config_overrides github_config_file ''github''
                        ''github_mcp_'' of
                   (Inl e, t2, w2) \<Rightarrow> (Inl e, t1 @ t2, w2)
                 | (Inr github_file, t2, w2) \<Rightarrow> (Inr (jira_file, github_file), t1 @ t2, w2)))
         else (Inr (jira_config_file, github_config_file), [], w))"

text \<open>
  The body of the \<open>try\<close> (lines 1030 to 1086): its outcome, the temporary files
  registered, and the state.
\<close>

definition try_body ::
    "env \<Rightarrow> world \<Rightarrow> (string \<times> val) list option \<Rightarrow> string \<Rightarrow> string \<Rightarrow> string \<Rightarrow> string
     \<Rightarrow> string \<Rightarrow> string \<Rightarrow> (exn + string \<times> string) \<times> string list \<times> world" where
  "try_body E w config_overrides jira_server jira_email jira_api_token github_token
       calc_start_date calc_end_date =
     (case prepare_files E w config_overrides of
        (Inl e, temp_files, w1) \<Rightarrow> (Inl e, temp_files, w1)
      | (Inr (jira_config_file, github_config_file), temp_files, w1) \<Rightarrow>
          (case gather E w1 jira_config_file github_config_file jira_server jira_email
                  jira_api_token github_token calc_start_date calc_end_date of
             (reports, w2) \<Rightarrow> (Inr reports, temp_files, w2)))"

text \<open>The \<open>finally\<close> block (lines 1088 to 1096).\<close>

fun cleanup :: "env \<Rightarrow> string list \<Rightarrow> world \<Rightarrow> world" where
  "cleanup E [] w = w"
| "cleanup E (temp_file # rest) w =
     cleanup E rest
       (case files w temp_file of
          None \<Rightarrow> w
        | Some _ \<Rightarrow>
            (case unlink_error E temp_file of
               None \<Rightarrow>
                 logged INFO (''Cleaned up temp config file: '' @ temp_file)
                   (w\<lparr>files := (files w)(temp_file := None)\<rparr>)
             | Some e \<Rightarrow>
                 logged WARNING (''Could not delete temp file '' @ temp_file @ '': ''
                                 @ str_exn e) w))"

definition aggregate ::
    "env \<Rightarrow> world \<Rightarrow> (string \<times> val) list option \<Rightarrow> string \<Rightarrow> string \<Rightarrow> string \<Rightarrow> string
     \<Rightarrow> string \<Rightarrow> string \<Rightarrow> (exn + string \<times> string) \<times> world" where
  "aggregate E w config_overrides jira_server jira_email jira_api_token github_token
       calc_start_date calc_end_date =
     (case try_body E w config_overrides jira_server jira_email jira_api_token github_token
             calc_start_date calc_end_date of
        (outcome, temp_files_to_cleanup, w1) \<Rightarrow> (outcome, cleanup E temp_files_to_cleanup w1))"

text \<open>The summary section (lines 1115 to 1140).\<close>

definition add_summary ::
    "env \<Rightarrow> world \<Rightarrow> bool \<Rightarrow> string option \<Rightarrow> string \<Rightarrow> string \<times> world" where
  "add_summary E w generate_summary summary_prompt combined_report =
     (if generate_summary then
        (let w1 = logged INFO ''Generating AI summary...'' w;
             prompt = (if given summary_prompt then opt_str summary_prompt
                       else DEFAULT_SUMMARY_PROMPT)
         in case str_format E prompt combined_report of
              Inr prompt_with_report \<Rightarrow>
                (combined_report @ summary_text prompt,
                 logged INFO ''AI summary prompt added to report'' w1)
            | Inl e \<Rightarrow>
                (combined_report,
                 logged WARNING (''Failed to add AI summary prompt: '' @ str_exn e) w1))
      else (combined_report, w))"

text \<open>Saving and the reply (lines 1142 to 1161).\<close>

definition persist ::
    "env \<Rightarrow> world \<Rightarrow> string \<Rightarrow> string \<Rightarrow> string \<Rightarrow> string \<times> world" where
  "persist E w combined_report calc_start_date calc_end_date =
     (case save_report E w combined_report calc_start_date calc_end_date of
        (Inl e, w1) \<Rightarrow>
          (save_error_text e combined_report,
           logged ERROR (''Failed to save report: '' @ str_exn e) w1)
      | (Inr report_path, w1) \<Rightarrow>
          (success_text calc_start_date calc_end_date report_path combined_report,
           logged INFO (''Report saved to: '' @ report_path) w1))"

text \<open>Combining, enriching and saving the two reports (lines 1098 to 1161).\<close>

definition finish ::
    "env \<Rightarrow> world \<Rightarrow> bool \<Rightarrow> string option \<Rightarrow> string \<Rightarrow> string \<Rightarrow> string \<Rightarrow> string
     \<Rightarrow> string \<times> world" where
  "finish E w generate_summary summary_prompt calc_start_date calc_end_date jira_report
       github_report =
     (case add_summary E w generate_summary summary_prompt
             (combined_report_text calc_start_date calc_end_date jira_report github_report
                (stamp E)) of
        (combined_report, w1) \<Rightarrow> persist E w1 combined_report calc_start_date calc_end_date)"

text \<open>Everything after a cache miss (lines 984 to 1161).\<close>

definition generate_fresh ::
    "env \<Rightarrow> world \<Rightarrow> string option \<Rightarrow> bool \<Rightarrow> string option \<Rightarrow> (string \<times> val) list option
     \<Rightarrow> string \<Rightarrow> string \<Rightarrow> string \<times> world" where
  "generate_fresh E w github_token generate_summary summary_prompt config_overrides
       calc_start_date calc_end_date =
     (case load_config_with_overrides E w config_overrides of
        (Inl e, w1) \<Rightarrow> outer_error e w1
      | (Inr config, w1) \<Rightarrow>
          (let jira_server = getenv E ''JIRA_SERVER'';
               jira_email = getenv E ''JIRA_EMAIL'';
               jira_api_token = getenv E ''JIRA_API_TOKEN'';
               github_token = (if \<not> given github_token then getenv E ''GITHUB_TOKEN''
                               else github_token);
               missing = missing_creds jira_server jira_email jira_api_token github_token
           in if missing \<noteq> [] then (missing_credentials_text missing, w1)
              else
                (case import_error E of
                   Some (ImportError m) \<Rightarrow> (import_error_text m, w1)
                 | Some e \<Rightarrow> outer_error e w1
                 | None \<Rightarrow>
                     (case aggregate E w1 config_overrides (opt_str jira_server)
                             (opt_str jira_email) (opt_str jira_api_token)
                             (opt_str github_token) calc_start_date calc_end_date of
                        (Inl e, w2) \<Rightarrow> outer_error e w2
                      | (Inr (jira_report, github_report), w2) \<Rightarrow>
                          finish E w2 generate_summary summary_prompt calc_start_date
                            calc_end_date jira_report github_report))))"

text \<open>\<open>_generate_weekly_status\<close> (lines 939 to 1165).\<close>

definition generate_weekly_status ::
    "env \<Rightarrow> world \<Rightarrow> string option \<Rightarrow> string option \<Rightarrow> string option \<Rightarrow> bool \<Rightarrow> bool
     \<Rightarrow> string option \<Rightarrow> (string \<times> val) list option \<Rightarrow> string \<times> world" where
  "generate_weekly_status E w github_token start_date end_date regenerate generate_summary
       summary_prompt config_overrides =
     (case get_week_range (now E) start_date end_date of
        Inl (ValueError m) \<Rightarrow> (''Error: '' @ m, w)
      | Inl e \<Rightarrow> outer_error e w
      | Inr (calc_start_date, calc_end_date) \<Rightarrow>
          (let w0 = logged INFO (''Generating report for '' @ calc_end_date @ '' to ''
                                 @ calc_start_date) w
           in case cache_lookup E w0 regenerate calc_start_date calc_end_date of
                (Inl e, w1) \<Rightarrow> outer_error e w1
              | (Inr (Some text), w1) \<Rightarrow> (text, w1)
              | (Inr None, w1) \<Rightarrow>
                  generate_fresh E w1 github_token generate_summary summary_prompt
                    config_overrides calc_start_date calc_end_date))"

section \<open>A model of \<open>str.format\<close> for worked examples\<close>

text \<open>
  \<open>template.format(report_content=text)\<close> on templates whose replacement fields are plain
  names: \<open>{{\<close> and \<open>}}\<close> are braces, \<open>{report_content}\<close> is the text, another name is a
  \<open>KeyError\<close>, an empty or numeric field an \<open>IndexError\<close>, a brace without its partner a
  \<open>ValueError\<close>. Conversions, format specifications and attribute or index access are not
  covered; a field that uses one is reported as a \<open>ValueError\<close> here. The pipeline takes
  \<open>str.format\<close> from the environment, so this function only serves the examples.
\<close>

definition format_field :: "string \<Rightarrow> string \<Rightarrow> exn + string" where
  "format_field name text =
     (if name = ''report_content'' then Inr text
      else if list_all is_digit name
        then Inl (IndexError (''Replacement index '' @ (if name = [] then ''0'' else name)
                              @ '' out of range for positional args tuple''))
      else if list_ex (\<lambda>c. in_chars c ''!:.[{'') name
        then Inl (ValueError ''field not covered'')
      else Inl (KeyError ([CHR 0x27] @ name @ [CHR 0x27])))"

fun format_scan :: "string option \<Rightarrow> string \<Rightarrow> string \<Rightarrow> exn + string" where
  "format_scan None [] text = Inr []"
| "format_scan None (c # cs) text =
     (if c = CHR ''{'' then
        (case cs of
           [] \<Rightarrow> Inl (ValueError (''Single '' @ [CHR 0x27] @ ''{'' @ [CHR 0x27]
                                  @ '' encountered in format string''))
         | d # ds \<Rightarrow>
             if d = CHR ''{'' then
               (case format_scan None ds text of Inl e \<Rightarrow> Inl e | Inr r \<Rightarrow> Inr (CHR ''{'' # r))
             else format_scan (Some []) cs text)
      else if c = CHR ''}'' then
        (case cs of
           [] \<Rightarrow> Inl (ValueError (''Single '' @ [CHR 0x27] @ ''}'' @ [CHR 0x27]
                                  @ '' encountered in format string''))
         | d # ds \<Rightarrow>
             if d = CHR ''}'' then
               (case format_scan None ds text of Inl e \<Rightarrow> Inl e | Inr r \<Rightarrow> Inr (CHR ''}'' # r))
             else Inl (ValueError (''Single '' @ [CHR 0x27] @ ''}'' @ [CHR 0x27]
                                   @ '' encountered in format string'')))
      else (case format_scan None cs text of Inl e \<Rightarrow> Inl e | Inr r \<Rightarrow> Inr (c # r)))"
| "format_scan (Some name) [] text =
     Inl (ValueError (''expected '' @ [CHR 0x27] @ ''}'' @ [CHR 0x27] @ '' before end of string''))"
| "format_scan (Some name) (c # cs) text =
     (if c = CHR ''}'' then
        (case format_field name text of
           Inl e \<Rightarrow> Inl e
         | Inr v \<Rightarrow> (case format_scan None cs text of Inl e \<Rightarrow> Inl e | Inr r \<Rightarrow> Inr (v @ r)))
      else format_scan (Some (name @ [c])) cs text)"

definition format_report_content :: "string \<Rightarrow> string \<Rightarrow> exn + string" where
  "format_report_content template text = format_scan None template text"

section \<open>Notions used by the claims\<close>

text \<open>
  A part of a document represents a tree when no mapping object in it is met twice:
  \<open>represents s x v F\<close> says that \<open>x\<close>, read in the store \<open>s\<close>, is the tree \<open>v\<close>, and
  that \<open>F\<close> is the set of the mapping objects that \<open>x\<close> is made of, each of them met
  once. A document with an anchor and an alias to one mapping represents no tree.
\<close>

inductive represents :: "store \<Rightarrow> pval \<Rightarrow> val \<Rightarrow> addr set \<Rightarrow> bool"
  and represents_list :: "store \<Rightarrow> pval list \<Rightarrow> val list \<Rightarrow> addr set \<Rightarrow> bool"
  and represents_slots :: "store \<Rightarrow> obj \<Rightarrow> dict \<Rightarrow> addr set \<Rightarrow> bool"
where
  by_value: "represents s (Tree v) v {}"
| items: "represents_list s xs vs F \<Longrightarrow> represents s (Items xs) (VList vs) F"
| object: "represents_slots s (s a) d F \<Longrightarrow> a \<notin> F
           \<Longrightarrow> represents s (Ref a) (VDict d) (insert a F)"
| no_elements: "represents_list s [] [] {}"
| element: "represents s x v F1 \<Longrightarrow> represents_list s xs vs F2 \<Longrightarrow> F1 \<inter> F2 = {}
            \<Longrightarrow> represents_list s (x # xs) (v # vs) (F1 \<union> F2)"
| no_slots: "represents_slots s [] [] {}"
| slot: "represents s x v F1 \<Longrightarrow> represents_slots s ob d F2 \<Longrightarrow> F1 \<inter> F2 = {}
         \<Longrightarrow> represents_slots s ((k, x) # ob) ((k, v) # d) (F1 \<union> F2)"

code_pred (modes: i \<Rightarrow> i \<Rightarrow> o \<Rightarrow> o \<Rightarrow> bool) represents .

text \<open>
  What \<open>deep_update\<close> stores under an override key of a mapping held by value: the
  recursive merge when the default value and the override value are both mappings, the
  override value otherwise.
\<close>

fun merge_val :: "val option \<Rightarrow> val \<Rightarrow> val" where
  "merge_val (Some (VDict bd)) (VDict vd) = VDict (deep_update_tree bd vd)"
| "merge_val b v = v"

text \<open>The value that a path of keys leads to in what a merge has returned.\<close>

definition merged_value_at :: "exn + doc \<Rightarrow> key list \<Rightarrow> pval option" where
  "merged_value_at r ks = (case r of Inl e \<Rightarrow> None | Inr (root, s) \<Rightarrow> value_at s root ks)"

text \<open>The section of the combined report that an outcome of a generator gives.\<close>

definition jira_section :: "exn + string \<Rightarrow> string" where
  "jira_section r = (case r of Inl e \<Rightarrow> jira_error_text e | Inr t \<Rightarrow> t)"

definition github_section :: "exn + string \<Rightarrow> string" where
  "github_section r = (case r of Inl e \<Rightarrow> github_error_text e | Inr t \<Rightarrow> t)"

text \<open>The file of the report of a window.\<close>

definition report_file :: "env \<Rightarrow> string \<Rightarrow> string \<Rightarrow> string" where
  "report_file E cs ce = reports_dir E @ ''/Weekly_Report_'' @ cs @ ''_to_'' @ ce @ ''.md''"

text \<open>The credentials as the pipeline reads them.\<close>

definition effective_github_token :: "env \<Rightarrow> string option \<Rightarrow> string option" where
  "effective_github_token E github_token =
     (if \<not> given github_token then getenv E ''GITHUB_TOKEN'' else github_token)"

definition credential :: "env \<Rightarrow> string option \<Rightarrow> string \<Rightarrow> string option" where
  "credential E github_token name =
     (if name = ''GITHUB_TOKEN'' then effective_github_token E github_token
      else getenv E name)"

definition run_missing :: "env \<Rightarrow> string option \<Rightarrow> string list" where
  "run_missing E github_token =
     missing_creds (getenv E ''JIRA_SERVER'') (getenv E ''JIRA_EMAIL'')
       (getenv E ''JIRA_API_TOKEN'') (effective_github_token E github_token)"

text \<open>
  A run is a cache miss for the window \<open>(cs, ce)\<close> when the window is derived and the
  cache check neither raises nor finds a report; \<open>miss_state\<close> is the state it leaves.
  A run reaches the aggregation stage in state \<open>w2\<close> when, after a cache miss, the
  configuration loads, no credential is missing and the library imports.
\<close>

definition miss_state :: "env \<Rightarrow> world \<Rightarrow> bool \<Rightarrow> string \<Rightarrow> string \<Rightarrow> world" where
  "miss_state E w regenerate cs ce =
     snd (cache_lookup E (logged INFO (''Generating report for '' @ ce @ '' to '' @ cs) w)
            regenerate cs ce)"

definition cache_miss ::
    "env \<Rightarrow> world \<Rightarrow> string option \<Rightarrow> string option \<Rightarrow> bool \<Rightarrow> string \<Rightarrow> string \<Rightarrow> bool" where
  "cache_miss E w start_date end_date regenerate cs ce =
     (get_week_range (now E) start_date end_date = Inr (cs, ce)
      \<and> fst (cache_lookup E (logged INFO (''Generating report for '' @ ce @ '' to '' @ cs) w)
                regenerate cs ce) = Inr None)"

definition reaches_aggregation ::
    "env \<Rightarrow> world \<Rightarrow> string option \<Rightarrow> string option \<Rightarrow> string option \<Rightarrow> bool
     \<Rightarrow> (string \<times> val) list option \<Rightarrow> string \<Rightarrow> string \<Rightarrow> world \<Rightarrow> bool" where
  "reaches_aggregation E w github_token start_date end_date regenerate config_overrides
       cs ce w2 =
     (cache_miss E w start_date end_date regenerate cs ce
      \<and> snd (load_config_with_overrides E (miss_state E w regenerate cs ce) config_overrides)
          = w2
      \<and> \<not> isl (fst (load_config_with_overrides E (miss_state E w regenerate cs ce)
                          config_overrides))
      \<and> run_missing E github_token = []
      \<and> import_error E = None)"

section \<open>A worked environment\<close>

text \<open>
  An installation in \<open>/srv\<close> on Saturday 2025-11-08, with all four credentials set, a
  default Jira configuration file, an issue tracker that is down and a code host that
  answers. The examples below run the pipeline in it and in variants of it.
\<close>

definition example_defaults :: dict where
  "example_defaults =
     [(KStr ''team'', VStr ''core''),
      (KStr ''fields'', VDict [(KStr ''points'', VStr ''cf1''), (KStr ''sprint'', VStr ''cf2'')])]"

definition example_env :: env where
  "example_env =
     \<lparr>server_dir = ''/srv'',
      now = \<lparr>year = 2025, month = 11, day = 8\<rparr>,
      stamp = ''2025-11-08 09:30:00'',
      getenv = [''JIRA_SERVER'' \<mapsto> ''https://jira.example'', ''JIRA_EMAIL'' \<mapsto> ''a@b.c'',
                ''JIRA_API_TOKEN'' \<mapsto> ''t1'', ''GITHUB_TOKEN'' \<mapsto> ''t2''],
      mkdir_error = (\<lambda>p. None),
      read_error = (\<lambda>p. None),
      write_result = (\<lambda>p c. Written),
      unlink_error = (\<lambda>p. None),
      mkstemp = (\<lambda>prefix n. Inr (''/tmp/'' @ prefix @ show_nat n @ ''.yaml'')),
      yaml_safe_load = (\<lambda>text. if text = ''team: core; fields: {points: cf1, sprint: cf2}''
                                  then Inr (Tree (VDict example_defaults), no_objects)
                                  else Inl (ValueError ''bad yaml'')),
      yaml_dump = (\<lambda>d. ''dumped''),
      import_error = None,
      jira_summary = (\<lambda>fs cfg server email token s e. Inl (OSError ''boom'')),
      github_summary = (\<lambda>fs cfg token s e. Inr ''3 pull requests''),
      str_format = format_report_content\<rparr>"

definition example_world :: world where
  "example_world =
     \<lparr>files = [''/srv/config/jira_config.yaml''
                  \<mapsto> ''team: core; fields: {points: cf1, sprint: cf2}''],
      dirs = {},
      temps = 0,
      log = [],
      calls = []\<rparr>"

definition example_override_values :: dict where
  "example_override_values =
     [(KStr ''fields'', VDict [(KStr ''points'', VStr ''cf9'')]), (KStr ''board'', VInt 7)]"

definition example_overrides :: "(string \<times> val) list" where
  "example_overrides = [(''jira'', VDict example_override_values)]"

text \<open>The same installation with a report of the window 2024-01-10 in the cache.\<close>

definition example_world_cached :: "string \<Rightarrow> world" where
  "example_world_cached content =
     example_world\<lparr>files := (files example_world)
        (''/srv/Reports/Weekly_Report_2024-01-10_to_2024-01-03.md'' \<mapsto> content)\<rparr>"

text \<open>The same installation with no credential in the environment.\<close>

definition example_env_bare :: env where
  "example_env_bare = example_env\<lparr>getenv := (\<lambda>name. None)\<rparr>"

text \<open>The same installation on a disk that cannot be written.\<close>

definition example_env_disk_full :: env where
  "example_env_disk_full = example_env\<lparr>write_result := (\<lambda>p c. OpenFailed (OSError ''disk full''))\<rparr>"

text \<open>The same installation where temporary files cannot be removed.\<close>

definition example_env_sticky :: env where
  "example_env_sticky = example_env\<lparr>unlink_error := (\<lambda>p. Some (OSError ''busy''))\<rparr>"

text \<open>
  The same installation with overrides for both generators, on a disk that fills up
  when the second temporary file is written.
\<close>

definition example_overrides_both :: "(string \<times> val) list" where
  "example_overrides_both =
     [(''jira'', VDict example_override_values),
      (''github'', VDict [(KStr ''org'', VStr ''acme'')])]"

definition example_env_tmp_full :: env where
  "example_env_tmp_full =
     example_env\<lparr>write_result :=
       (\<lambda>p c. if p = ''/tmp/github_mcp_1.yaml''
               then WriteFailed (OSError ''No space left on device'') []
               else Written)\<rparr>"

text \<open>
  The same installation with a default Jira configuration file in which the keys
  \<open>base\<close> and \<open>copy\<close> hold one mapping, through an anchor and an alias, and with one
  that holds a list.
\<close>

definition example_shared_store :: store where
  "example_shared_store =
     no_objects(0 := [(KStr ''base'', Ref 1), (KStr ''copy'', Ref 1)],
                1 := [(KStr ''k'', Tree (VInt 1))])"

text \<open>
  The defaults of the worked environment once more, as a loader holds them that makes a
  mapping object of every mapping: no mapping is shared.
\<close>

definition example_unshared_store :: store where
  "example_unshared_store =
     no_objects(0 := [(KStr ''team'', Tree (VStr ''core'')), (KStr ''fields'', Ref 1)],
                1 := [(KStr ''points'', Tree (VStr ''cf1'')),
                      (KStr ''sprint'', Tree (VStr ''cf2''))])"

definition example_env_docs :: env where
  "example_env_docs =
     example_env\<lparr>yaml_safe_load :=
       (\<lambda>text. if text = ''base: &b {k: 1}\<newline>copy: *b\<newline>''
                  then Inr (Ref 0, example_shared_store)
                else if text = ''- core\<newline>''
                  then Inr (Tree (VList [VStr ''core'']), no_objects)
                else if text = ''team: core; fields: {points: cf1, sprint: cf2}''
                  then Inr (Ref 0, example_unshared_store)
                else Inl (ValueError ''bad yaml''))\<rparr>"

definition example_world_shared :: world where
  "example_world_shared =
     example_world\<lparr>files := [''/srv/config/jira_config.yaml''
                                \<mapsto> ''base: &b {k: 1}\<newline>copy: *b\<newline>'']\<rparr>"

definition example_world_list :: world where
  "example_world_list =
     example_world\<lparr>files := [''/srv/config/jira_config.yaml'' \<mapsto> ''- core\<newline>'']\<rparr>"

definition example_overrides_base :: "(string \<times> val) list" where
  "example_overrides_base = [(''jira'', VDict [(KStr ''base'', VDict [(KStr ''k'', VInt 2)])])]"

section \<open>Properties of the calendar\<close>

lemma mod_zero_range: "0 < x \<Longrightarrow> x \<le> k \<Longrightarrow> (x mod k = 0) = (x = (k::int))"
  by (cases "x = k") auto

lemma year_split:
  "400 * a + 100 * b + 4 * c + d + 1 = 4 * (100 * a + 25 * b + c) + (d + 1)"
  "400 * a + 100 * b + 4 * c + d + 1 = 100 * (4 * a + b) + (4 * c + d + 1)"
  "400 * a + 100 * b + 4 * c + d + 1 = 400 * a + (100 * b + 4 * c + d + (1::int))"
  by simp_all

lemma leap_decomp:
  assumes "0 \<le> b" "b < 4" "0 \<le> c" "c \<le> 24" "0 \<le> d" "d < 4"
  shows "is_leap (400 * a + 100 * b + 4 * c + d + 1) = (d = 3 \<and> (c \<noteq> 24 \<or> b = 3))"
proof -
  let ?y = "400 * a + 100 * b + 4 * c + d + 1"
  have "?y mod 4 = (d + 1) mod 4"
    by (metis year_split(1) mod_mult_self4)
  moreover have "((d + 1) mod 4 = 0) = (d + 1 = 4)"
    using assms by (intro mod_zero_range) auto
  ultimately have m4: "(?y mod 4 = 0) = (d = 3)" by auto
  have "?y mod 100 = (4 * c + d + 1) mod 100"
    by (metis year_split(2) mod_mult_self4)
  moreover have "((4 * c + d + 1) mod 100 = 0) = (4 * c + d + 1 = 100)"
    using assms by (intro mod_zero_range) auto
  moreover have cd: "(4 * c + d + 1 = 100) = (c = 24 \<and> d = 3)" using assms by presburger
  ultimately have m100: "(?y mod 100 = 0) = (c = 24 \<and> d = 3)" by simp
  have "?y mod 400 = (100 * b + 4 * c + d + 1) mod 400"
    by (metis year_split(3) mod_mult_self4)
  moreover have "((100 * b + 4 * c + d + 1) mod 400 = 0) = (100 * b + 4 * c + d + 1 = 400)"
    using assms by (intro mod_zero_range) auto
  moreover have "(100 * b + 4 * c + d + 1 = 400) = (b = 3 \<and> 4 * c + d + 1 = 100)"
    using assms by linarith
  ultimately have m400: "(?y mod 400 = 0) = (b = 3 \<and> c = 24 \<and> d = 3)" using cd by simp
  show ?thesis unfolding is_leap_def m4 m100 m400 by blast
qed

lemma div_split: "0 \<le> r \<Longrightarrow> r < k \<Longrightarrow> (k * q + r) div k = (q::int)"
  by (simp add: div_pos_pos_trivial)

lemma dby_decomp:
  assumes "0 \<le> b" "b < 4" "0 \<le> c" "c \<le> 24" "0 \<le> d" "d < 4"
  shows "days_before_year (400 * a + 100 * b + 4 * c + d + 1)
         = 146097 * a + 36524 * b + 1461 * c + 365 * d"
proof -
  let ?t = "400 * a + 100 * b + 4 * c + d"
  have "?t = 4 * (100 * a + 25 * b + c) + d" by simp
  then have d4: "?t div 4 = 100 * a + 25 * b + c"
    using assms div_split [of d 4 "100 * a + 25 * b + c"] by simp
  have "?t = 100 * (4 * a + b) + (4 * c + d)" by simp
  then have d100: "?t div 100 = 4 * a + b"
    using assms div_split [of "4 * c + d" 100 "4 * a + b"] by simp
  have d400: "?t div 400 = a"
    using assms div_split [of "100 * b + 4 * c + d" 400 a] by (simp add: add.assoc)
  show ?thesis
    unfolding days_before_year_def using d4 d100 d400 by simp
qed

lemma month_part:
  assumes "0 \<le> n" "n < 365"
  shows "(let m = (n + 50) div 32;
              preceding = DAYS_BEFORE_MONTH ! nat m + (if m > 2 \<and> L then 1 else 0)
          in if preceding > n
             then DAYS_BEFORE_MONTH ! nat (m - 1) + (if m - 1 > 2 \<and> L then 1 else 0)
                  + (n - (preceding - (DAYS_IN_MONTH ! nat (m - 1)
                                      + (if m - 1 = 2 \<and> L then 1 else 0))) + 1)
             else DAYS_BEFORE_MONTH ! nat m + (if m > 2 \<and> L then 1 else 0)
                  + (n - preceding + 1)) = n + 1"
proof -
  define m where "m = (n + 50) div 32"
  have lo: "32 * m \<le> n + 50" and hi: "n + 50 < 32 * m + 32"
    unfolding m_def by presburger+
  have "1 \<le> m" "m \<le> 12" using lo hi assms by auto
  then have "m = 1 \<or> m = 2 \<or> m = 3 \<or> m = 4 \<or> m = 5 \<or> m = 6 \<or> m = 7 \<or> m = 8
             \<or> m = 9 \<or> m = 10 \<or> m = 11 \<or> m = 12" by arith
  then show ?thesis
    unfolding Let_def m_def [symmetric] using lo hi assms
    by (elim disjE) (simp_all add: DAYS_BEFORE_MONTH_def DAYS_IN_MONTH_def)
qed

lemma ymd2ord_ord2ymd:
  assumes "1 \<le> n"
  shows "(case ord2ymd n of (y, m, d) \<Rightarrow> ymd2ord y m d) = n"
proof -
  define a where "a = (n - 1) div 146097"
  define r1 where "r1 = (n - 1) mod 146097"
  define b where "b = r1 div 36524"
  define r2 where "r2 = r1 mod 36524"
  define c where "c = r2 div 1461"
  define r3 where "r3 = r2 mod 1461"
  define d where "d = r3 div 365"
  define r4 where "r4 = r3 mod 365"
  define Y where "Y = a * 400 + 1 + b * 100 + c * 4 + d"
  have Y_eq: "Y = 400 * a + 100 * b + 4 * c + d + 1" unfolding Y_def by simp
  have n_eq: "n - 1 = 146097 * a + r1" and r1: "0 \<le> r1" "r1 < 146097"
    unfolding a_def r1_def by simp_all
  have r1_eq: "r1 = 36524 * b + r2" and r2: "0 \<le> r2" "r2 < 36524"
    unfolding b_def r2_def by simp_all
  have r2_eq: "r2 = 1461 * c + r3" and r3: "0 \<le> r3" "r3 < 1461"
    unfolding c_def r3_def by simp_all
  have r3_eq: "r3 = 365 * d + r4" and r4: "0 \<le> r4" "r4 < 365"
    unfolding d_def r4_def by simp_all
  have b: "0 \<le> b" "b \<le> 4" using r1 r1_eq r2 by arith+
  have c: "0 \<le> c" "c \<le> 24" using r2 r2_eq r3 by arith+
  have d: "0 \<le> d" "d \<le> 4" using r3 r3_eq r4 by arith+
  have unfold: "ord2ymd n =
    (if d = 4 \<or> b = 4 then (Y - 1, 12, 31)
     else
       let leapyear = (d = 3 \<and> (c \<noteq> 24 \<or> b = 3));
           m = (r4 + 50) div 32;
           preceding = DAYS_BEFORE_MONTH ! nat m + (if m > 2 \<and> leapyear then 1 else 0)
       in if preceding > r4
          then (Y, m - 1,
                r4 - (preceding - (DAYS_IN_MONTH ! nat (m - 1)
                                  + (if m - 1 = 2 \<and> leapyear then 1 else 0))) + 1)
          else (Y, m, r4 - preceding + 1))"
    unfolding ord2ymd_def Let_def a_def [symmetric] r1_def [symmetric] b_def [symmetric]
      r2_def [symmetric] c_def [symmetric] r3_def [symmetric] d_def [symmetric]
      r4_def [symmetric] Y_def [symmetric]
    by (rule refl)
  show ?thesis
  proof (cases "d = 4 \<or> b = 4")
    case True
    then show ?thesis
    proof
      assume d4: "d = 4"
      then have r4z: "r4 = 0" using r3_eq r3 r4 by simp
      have c23: "c \<le> 23" using r2_eq r2 r3_eq d4 r4z c by simp
      have b3: "b < 4" using r1_eq r1 r2 r2_eq r3_eq d4 r4z c by simp
      have y: "Y - 1 = 400 * a + 100 * b + 4 * (c + 1) + 0 + 1 - 1"
        using d4 Y_eq by simp
      have leap: "is_leap (Y - 1)"
        using leap_decomp [of b c 3 a] b b3 c c23 d4 Y_eq by simp
      have dby: "days_before_year (Y - 1)
                 = 146097 * a + 36524 * b + 1461 * c + 365 * 3"
        using dby_decomp [of b c 3 a] b b3 c c23 d4 Y_eq by simp
      show ?thesis
        unfolding unfold using d4 leap dby n_eq r1_eq r2_eq r3_eq r4z
        by (simp add: ymd2ord_def days_before_month_def DAYS_BEFORE_MONTH_def)
    next
      assume b4: "b = 4"
      then have r2z: "r2 = 0" using r1_eq r1 r2 by simp
      then have cz: "c = 0" and dz: "d = 0" and r4z: "r4 = 0"
        unfolding c_def d_def r3_def r4_def by simp_all
      have leap: "is_leap (Y - 1)"
        using leap_decomp [of 3 24 3 a] b4 cz dz Y_eq by simp
      have dby: "days_before_year (Y - 1)
                 = 146097 * a + 36524 * 3 + 1461 * 24 + 365 * 3"
        using dby_decomp [of 3 24 3 a] b4 cz dz Y_eq by simp
      show ?thesis
        unfolding unfold using b4 leap dby n_eq r1_eq r2z
        by (simp add: ymd2ord_def days_before_month_def DAYS_BEFORE_MONTH_def)
    qed
  next
    case False
    then have d3: "d < 4" and b3: "b < 4" using d b by auto
    have leap: "is_leap Y = (d = 3 \<and> (c \<noteq> 24 \<or> b = 3))"
      using leap_decomp [of b c d a] b b3 c d d3 Y_eq by simp
    have dby: "days_before_year Y
               = 146097 * a + 36524 * b + 1461 * c + 365 * d"
      using dby_decomp [of b c d a] b b3 c d d3 Y_eq by simp
    have n': "n = days_before_year Y + (r4 + 1)"
      using dby n_eq r1_eq r2_eq r3_eq by simp
    define L where "L = (d = 3 \<and> (c \<noteq> 24 \<or> b = 3))"
    define m where "m = (r4 + 50) div 32"
    define p where "p = DAYS_BEFORE_MONTH ! nat m + (if m > 2 \<and> L then 1 else 0)"
    define q where "q = p - (DAYS_IN_MONTH ! nat (m - 1) + (if m - 1 = 2 \<and> L then 1 else 0))"
    have mp: "(if p > r4
               then DAYS_BEFORE_MONTH ! nat (m - 1) + (if m - 1 > 2 \<and> L then 1 else 0)
                    + (r4 - q + 1)
               else DAYS_BEFORE_MONTH ! nat m + (if m > 2 \<and> L then 1 else 0)
                    + (r4 - p + 1)) = r4 + 1"
      using month_part [OF r4, of L] unfolding Let_def m_def p_def q_def .
    have ord: "ord2ymd n = (if p > r4 then (Y, m - 1, r4 - q + 1) else (Y, m, r4 - p + 1))"
      unfolding unfold Let_def L_def [symmetric] m_def [symmetric] p_def [symmetric]
        q_def [symmetric]
      using False by simp
    have leapL: "is_leap Y = L" using leap L_def by simp
    show ?thesis
    proof (cases "p > r4")
      case True
      with mp have "DAYS_BEFORE_MONTH ! nat (m - 1) + (if m - 1 > 2 \<and> L then 1 else 0)
                    + (r4 - q + 1) = r4 + 1" by simp
      then have "ymd2ord Y (m - 1) (r4 - q + 1) = n"
        unfolding ymd2ord_def days_before_month_def leapL using n' by simp
      then show ?thesis using True ord by simp
    next
      case False
      with mp have "DAYS_BEFORE_MONTH ! nat m + (if m > 2 \<and> L then 1 else 0)
                    + (r4 - p + 1) = r4 + 1" by simp
      then have "ymd2ord Y m (r4 - p + 1) = n"
        unfolding ymd2ord_def days_before_month_def leapL using n' by simp
      then show ?thesis using False ord by simp
    qed
  qed
qed

lemma toordinal_fromordinal: "1 \<le> n \<Longrightarrow> toordinal (fromordinal n) = n"
  using ymd2ord_ord2ymd [of n]
  by (simp add: toordinal_def fromordinal_def split: prod.splits)



subsection \<open>What a parsed date looks like\<close>

lemma digit_val_range: "is_digit c \<Longrightarrow> 0 \<le> digit_val c \<and> digit_val c \<le> 9"
  by (auto simp: is_digit_def in_chars_def digit_val_def)

lemma digit_val_19: "in_chars c ''123456789'' \<Longrightarrow> 1 \<le> digit_val c \<and> digit_val c \<le> 9"
  by (auto simp: in_chars_def digit_val_def)

lemma digit_val_012: "in_chars c ''012'' \<Longrightarrow> 0 \<le> digit_val c \<and> digit_val c \<le> 2"
  by (auto simp: in_chars_def digit_val_def)

lemma digit_val_01: "in_chars c ''01'' \<Longrightarrow> 0 \<le> digit_val c \<and> digit_val c \<le> 1"
  by (auto simp: in_chars_def digit_val_def)

lemma digit_val_12: "in_chars c ''12'' \<Longrightarrow> 1 \<le> digit_val c \<and> digit_val c \<le> 2"
  by (auto simp: in_chars_def digit_val_def)

lemma parse_month_range: "parse_month r = Some (m, r') \<Longrightarrow> 1 \<le> m \<and> m \<le> 12"
  by (cases r rule: parse_month.cases)
     (auto split: if_splits dest!: digit_val_19 digit_val_012)

lemma parse_day_range: "parse_day r = Some (d, r') \<Longrightarrow> 1 \<le> d \<and> d \<le> 31"
  by (cases r rule: parse_day.cases)
     (auto split: if_splits dest!: digit_val_19 digit_val_01 digit_val_12 digit_val_range)

lemma make_date_valid:
  "make_date y m d = Inr dt \<Longrightarrow> y \<le> 9999 \<Longrightarrow> 1 \<le> m \<Longrightarrow> m \<le> 12 \<Longrightarrow> 1 \<le> d \<Longrightarrow> valid_date dt"
  by (auto simp: make_date_def valid_date_def split: if_splits)

lemma strptime_parts:
  assumes "strptime s = Inr d"
  shows "\<exists>y1 y2 y3 y4 r m r' dd.
           s = y1 # y2 # y3 # y4 # CHR ''-'' # r
         \<and> is_digit y1 \<and> is_digit y2 \<and> is_digit y3 \<and> is_digit y4
         \<and> parse_month r = Some (m, CHR ''-'' # r') \<and> parse_day r' = Some (dd, [])
         \<and> make_date (1000 * digit_val y1 + 100 * digit_val y2 + 10 * digit_val y3
                       + digit_val y4) m dd = Inr d"
  using assms
proof (induction s rule: strptime.induct)
  case (1 y1 y2 y3 y4 sep1 r)
  then show ?case
    by (simp add: no_match_def split: if_splits option.splits list.splits prod.splits)
qed (simp_all add: no_match_def)

lemma strptime_valid:
  assumes "strptime s = Inr d"
  shows "valid_date d"
proof -
  from strptime_parts [OF assms] obtain y1 y2 y3 y4 r m r' dd where
    dg: "is_digit y1" "is_digit y2" "is_digit y3" "is_digit y4"
    and pm: "parse_month r = Some (m, CHR ''-'' # r')"
    and pd: "parse_day r' = Some (dd, [])"
    and mk: "make_date (1000 * digit_val y1 + 100 * digit_val y2 + 10 * digit_val y3
                       + digit_val y4) m dd = Inr d"
    by blast
  have "1000 * digit_val y1 + 100 * digit_val y2 + 10 * digit_val y3 + digit_val y4 \<le> 9999"
    using dg [THEN digit_val_range] by simp
  then show ?thesis
    using make_date_valid [OF mk] parse_month_range [OF pm] parse_day_range [OF pd] by simp
qed

lemma strptime_nonempty: "strptime s = Inr d \<Longrightarrow> s \<noteq> []"
  by (auto simp: no_match_def)

subsection \<open>Ordinals of valid dates, and a week back\<close>

lemma days_before_year_upper:
  assumes "y \<le> 9999"
  shows "days_before_year y \<le> 3651695"
proof -
  define t where "t = y - 1"
  have t: "t \<le> 9998" using assms t_def by simp
  define q4 where "q4 = t div 4"
  define q100 where "q100 = t div 100"
  define q400 where "q400 = t div 400"
  have q4: "4 * q4 \<le> t" unfolding q4_def by presburger
  have q100: "t - 99 \<le> 100 * q100" unfolding q100_def by presburger
  have q400: "400 * q400 \<le> t" unfolding q400_def by presburger
  have "days_before_year y = t * 365 + q4 - q100 + q400"
    unfolding days_before_year_def t_def q4_def q100_def q400_def by simp
  then show ?thesis using t q4 q100 q400 by linarith
qed

lemma days_before_month_upper:
  assumes "1 \<le> m" "m \<le> 12"
  shows "days_before_month y m \<le> 335"
proof -
  have "m = 1 \<or> m = 2 \<or> m = 3 \<or> m = 4 \<or> m = 5 \<or> m = 6 \<or> m = 7 \<or> m = 8
        \<or> m = 9 \<or> m = 10 \<or> m = 11 \<or> m = 12" using assms by arith
  then show ?thesis
    by (elim disjE) (simp_all add: days_before_month_def DAYS_BEFORE_MONTH_def)
qed

lemma days_in_month_upper:
  assumes "1 \<le> m" "m \<le> 12"
  shows "days_in_month y m \<le> 31"
proof -
  have "m = 1 \<or> m = 2 \<or> m = 3 \<or> m = 4 \<or> m = 5 \<or> m = 6 \<or> m = 7 \<or> m = 8
        \<or> m = 9 \<or> m = 10 \<or> m = 11 \<or> m = 12" using assms by arith
  then show ?thesis
    by (elim disjE) (simp_all add: days_in_month_def DAYS_IN_MONTH_def)
qed

lemma toordinal_upper:
  assumes "valid_date d"
  shows "toordinal d \<le> MAXORDINAL + 7"
proof -
  have "days_before_year (year d) \<le> 3651695"
    using assms by (simp add: valid_date_def days_before_year_upper)
  moreover have "days_before_month (year d) (month d) \<le> 335"
    using assms by (simp add: valid_date_def days_before_month_upper)
  moreover have "day d \<le> 31"
    using assms days_in_month_upper [of "month d" "year d"] by (simp add: valid_date_def)
  ultimately show ?thesis
    by (simp add: toordinal_def ymd2ord_def MAXORDINAL_def)
qed

lemma weekday_fromordinal:
  assumes "1 \<le> n"
  shows "weekday (fromordinal n) = (n + 6) mod 7"
  using assms by (simp add: weekday_def toordinal_fromordinal)

lemma minus_days_week:
  assumes "valid_date d" "7 < toordinal d"
  shows "minus_days d 7 = Inr (fromordinal (toordinal d - 7))"
    and "toordinal (fromordinal (toordinal d - 7)) = toordinal d - 7"
    and "weekday (fromordinal (toordinal d - 7)) = weekday d"
proof -
  show "minus_days d 7 = Inr (fromordinal (toordinal d - 7))"
    using assms toordinal_upper [OF assms(1)] by (simp add: minus_days_def)
  show "toordinal (fromordinal (toordinal d - 7)) = toordinal d - 7"
    using assms by (simp add: toordinal_fromordinal)
  moreover have "toordinal d - 7 + 6 = toordinal d + 6 - 7" by simp
  moreover have "(toordinal d + 6 - 7) mod 7 = (toordinal d + 6) mod 7"
    by (rule minus_mod_self2)
  ultimately show "weekday (fromordinal (toordinal d - 7)) = weekday d"
    unfolding weekday_def by simp
qed

section \<open>Properties of the pipeline\<close>

subsection \<open>What each step leaves unchanged\<close>

lemma logged_simps [simp]:
  "files (logged l m w) = files w"
  "dirs (logged l m w) = dirs w"
  "temps (logged l m w) = temps w"
  "calls (logged l m w) = calls w"
  "log (logged l m w) = log w @ [(l, m)]"
  by (simp_all add: logged_def)

lemma get_report_path_ok:
  assumes "mkdir_error E (reports_dir E) = None"
  shows "get_report_path E w cs ce
         = (Inr (report_file E cs ce), w\<lparr>dirs := insert (reports_dir E) (dirs w)\<rparr>)"
  using assms by (simp add: get_report_path_def report_file_def)

lemma get_report_path_frame:
  "files (snd (get_report_path E w cs ce)) = files w"
  "temps (snd (get_report_path E w cs ce)) = temps w"
  "calls (snd (get_report_path E w cs ce)) = calls w"
  "log (snd (get_report_path E w cs ce)) = log w"
  by (simp_all add: get_report_path_def split: option.splits)

lemma check_report_exists_frame:
  "files (snd (check_report_exists E w cs ce)) = files w"
  "temps (snd (check_report_exists E w cs ce)) = temps w"
  "calls (snd (check_report_exists E w cs ce)) = calls w"
  using get_report_path_frame [of E w cs ce]
  by (auto simp: check_report_exists_def split: prod.splits sum.splits option.splits)

lemma cache_lookup_frame:
  "files (snd (cache_lookup E w r cs ce)) = files w"
  "temps (snd (cache_lookup E w r cs ce)) = temps w"
  "calls (snd (cache_lookup E w r cs ce)) = calls w"
proof -
  obtain x w1 where c: "check_report_exists E w cs ce = (x, w1)" by (cases "check_report_exists E w cs ce")
  have f1: "files w1 = files w" "temps w1 = temps w" "calls w1 = calls w"
    using check_report_exists_frame [of E w cs ce] c by simp_all
  obtain y w2 where g: "get_report_path E w1 cs ce = (y, w2)" by (cases "get_report_path E w1 cs ce")
  have f2: "files w2 = files w1" "temps w2 = temps w1" "calls w2 = calls w1"
    using get_report_path_frame [of E w1 cs ce] g by simp_all
  show "files (snd (cache_lookup E w r cs ce)) = files w"
    "temps (snd (cache_lookup E w r cs ce)) = temps w"
    "calls (snd (cache_lookup E w r cs ce)) = calls w"
    using c g f1 f2 by (auto simp: cache_lookup_def split: sum.splits)
qed

lemma load_named_config_frame:
  "files (snd (load_named_config E w n p)) = files w"
  "temps (snd (load_named_config E w n p)) = temps w"
  "calls (snd (load_named_config E w n p)) = calls w"
  by (simp_all add: load_named_config_def split: option.splits sum.splits)

lemma load_config_with_overrides_frame:
  "files (snd (load_config_with_overrides E w ov)) = files w"
  "temps (snd (load_config_with_overrides E w ov)) = temps w"
  "calls (snd (load_config_with_overrides E w ov)) = calls w"
proof -
  obtain j w1 where a: "load_named_config E w ''Jira'' ''config/jira_config.yaml'' = (j, w1)"
    by (cases "load_named_config E w ''Jira'' ''config/jira_config.yaml''")
  obtain g w2 where b: "load_named_config E w1 ''GitHub'' ''config/github_config.yaml'' = (g, w2)"
    by (cases "load_named_config E w1 ''GitHub'' ''config/github_config.yaml''")
  obtain t w3 where c: "load_named_config E w2 ''team'' ''config/team_config.yaml'' = (t, w3)"
    by (cases "load_named_config E w2 ''team'' ''config/team_config.yaml''")
  have f: "files w3 = files w" "temps w3 = temps w" "calls w3 = calls w"
    using load_named_config_frame [of E w "''Jira''" "''config/jira_config.yaml''"]
      load_named_config_frame [of E w1 "''GitHub''" "''config/github_config.yaml''"]
      load_named_config_frame [of E w2 "''team''" "''config/team_config.yaml''"] a b c
    by simp_all
  show "files (snd (load_config_with_overrides E w ov)) = files w"
    "temps (snd (load_config_with_overrides E w ov)) = temps w"
    "calls (snd (load_config_with_overrides E w ov)) = calls w"
    using a b c f
    by (auto simp: load_config_with_overrides_def Let_def split: option.splits sum.splits)
qed

lemma miss_state_frame:
  "files (miss_state E w r cs ce) = files w"
  "temps (miss_state E w r cs ce) = temps w"
  "calls (miss_state E w r cs ce) = calls w"
  by (simp_all add: miss_state_def cache_lookup_frame)

subsection \<open>The run, stage by stage\<close>

lemma run_after_cache_miss:
  assumes "cache_miss E w sd ed r cs ce"
  shows "generate_weekly_status E w gt sd ed r gs sp ov
         = generate_fresh E (miss_state E w r cs ce) gt gs sp ov cs ce"
proof -
  let ?w0 = "logged INFO (''Generating report for '' @ ce @ '' to '' @ cs) w"
  from assms have g: "get_week_range (now E) sd ed = Inr (cs, ce)"
    and c: "fst (cache_lookup E ?w0 r cs ce) = Inr None"
    by (simp_all add: cache_miss_def)
  obtain x w1 where e: "cache_lookup E ?w0 r cs ce = (x, w1)"
    by (cases "cache_lookup E ?w0 r cs ce")
  with c have x: "x = Inr None" by simp
  show ?thesis
    using g e x by (simp add: generate_weekly_status_def miss_state_def)
qed

lemma fresh_missing_credentials:
  assumes "\<not> isl (fst (load_config_with_overrides E w ov))"
    and "run_missing E gt \<noteq> []"
  shows "generate_fresh E w gt gs sp ov cs ce
         = (missing_credentials_text (run_missing E gt),
            snd (load_config_with_overrides E w ov))"
proof -
  obtain x w1 where e: "load_config_with_overrides E w ov = (x, w1)"
    by (cases "load_config_with_overrides E w ov")
  with assms(1) obtain cfg where x: "x = Inr cfg" by (cases x) simp_all
  show ?thesis
    using e x assms(2)
    by (simp add: generate_fresh_def run_missing_def effective_github_token_def Let_def)
qed

lemma fresh_reaches_aggregation:
  assumes "\<not> isl (fst (load_config_with_overrides E w ov))"
    and "run_missing E gt = []"
    and "import_error E = None"
  shows "generate_fresh E w gt gs sp ov cs ce
         = (case aggregate E (snd (load_config_with_overrides E w ov)) ov
                   (opt_str (getenv E ''JIRA_SERVER'')) (opt_str (getenv E ''JIRA_EMAIL''))
                   (opt_str (getenv E ''JIRA_API_TOKEN''))
                   (opt_str (effective_github_token E gt)) cs ce of
              (Inl e, w2) \<Rightarrow> outer_error e w2
            | (Inr (jira_report, github_report), w2) \<Rightarrow>
                finish E w2 gs sp cs ce jira_report github_report)"
proof -
  obtain x w1 where e: "load_config_with_overrides E w ov = (x, w1)"
    by (cases "load_config_with_overrides E w ov")
  with assms(1) obtain cfg where x: "x = Inr cfg" by (cases x) simp_all
  show ?thesis
    using e x assms(2,3)
    by (simp add: generate_fresh_def run_missing_def effective_github_token_def Let_def)
qed

lemma run_reaches_aggregation:
  assumes "reaches_aggregation E w gt sd ed r ov cs ce w2"
  shows "generate_weekly_status E w gt sd ed r gs sp ov
         = (case aggregate E w2 ov
                   (opt_str (getenv E ''JIRA_SERVER'')) (opt_str (getenv E ''JIRA_EMAIL''))
                   (opt_str (getenv E ''JIRA_API_TOKEN''))
                   (opt_str (effective_github_token E gt)) cs ce of
              (Inl e, w3) \<Rightarrow> outer_error e w3
            | (Inr (jira_report, github_report), w3) \<Rightarrow>
                finish E w3 gs sp cs ce jira_report github_report)"
  using assms run_after_cache_miss [of E w sd ed r cs ce gt gs sp ov]
    fresh_reaches_aggregation [of E "miss_state E w r cs ce" ov gt gs sp cs ce]
  by (simp add: reaches_aggregation_def)

lemma reaches_aggregation_frame:
  assumes "reaches_aggregation E w gt sd ed r ov cs ce w2"
  shows "files w2 = files w" "temps w2 = temps w" "calls w2 = calls w"
  using assms
    load_config_with_overrides_frame [of E "miss_state E w r cs ce" ov]
    miss_state_frame [of E w r cs ce]
  by (auto simp: reaches_aggregation_def)

subsection \<open>The generator calls\<close>

lemma gather_result:
  "gather E w jf gf js je jt ght cs ce
   = ((jira_section (jira_summary E (files w) jf js je jt cs ce),
       github_section (github_summary E (files w) gf ght cs ce)),
      snd (gather E w jf gf js je jt ght cs ce))"
  by (simp add: gather_def Let_def jira_section_def github_section_def
      split: sum.splits prod.splits)

lemma gather_frame:
  "files (snd (gather E w jf gf js je jt ght cs ce)) = files w"
  "temps (snd (gather E w jf gf js je jt ght cs ce)) = temps w"
  "calls (snd (gather E w jf gf js je jt ght cs ce))
   = calls w @ [JiraCall jf js je jt cs ce, GitHubCall gf ght cs ce]"
  by (simp_all add: gather_def Let_def split: sum.splits prod.splits)

subsection \<open>The cleanup\<close>

lemma cleanup_frame:
  "temps (cleanup E ts w) = temps w"
  "calls (cleanup E ts w) = calls w"
  by (induction ts arbitrary: w) (simp_all split: option.splits)

lemma cleanup_files_other:
  "p \<notin> set ts \<Longrightarrow> files (cleanup E ts w) p = files w p"
  by (induction ts arbitrary: w) (auto split: option.splits)

lemma cleanup_files_None:
  "files w p = None \<Longrightarrow> files (cleanup E ts w) p = None"
  by (induction ts arbitrary: w) (auto split: option.splits)

lemma cleanup_log_mono:
  "set (log w) \<subseteq> set (log (cleanup E ts w))"
proof (induction ts arbitrary: w)
  case Nil
  then show ?case by simp
next
  case (Cons t ts)
  show ?case
  proof (cases "files w t")
    case None
    then show ?thesis using Cons.IH [of w] by simp
  next
    case (Some c)
    show ?thesis
    proof (cases "unlink_error E t")
      case None
      then show ?thesis
        using Some Cons.IH [of "logged INFO (''Cleaned up temp config file: '' @ t)
                                  (w\<lparr>files := (files w)(t := None)\<rparr>)"]
        by auto
    next
      case (Some e)
      then show ?thesis
        using \<open>files w t = Some c\<close>
          Cons.IH [of "logged WARNING (''Could not delete temp file '' @ t @ '': ''
                                       @ str_exn e) w"]
        by auto
    qed
  qed
qed

lemma cleanup_removes:
  assumes "p \<in> set ts"
  shows "files (cleanup E ts w) p = None
         \<or> (\<exists>e. unlink_error E p = Some e
                 \<and> (WARNING, ''Could not delete temp file '' @ p @ '': '' @ str_exn e)
                     \<in> set (log (cleanup E ts w)))"
  using assms
proof (induction ts arbitrary: w)
  case Nil
  then show ?case by simp
next
  case (Cons t ts)
  let ?w' = "case files w t of
               None \<Rightarrow> w
             | Some _ \<Rightarrow>
                 (case unlink_error E t of
                    None \<Rightarrow>
                      logged INFO (''Cleaned up temp config file: '' @ t)
                        (w\<lparr>files := (files w)(t := None)\<rparr>)
                  | Some e \<Rightarrow>
                      logged WARNING (''Could not delete temp file '' @ t @ '': ''
                                      @ str_exn e) w)"
  have step: "cleanup E (t # ts) w = cleanup E ts ?w'" by simp
  show ?case
  proof (cases "p \<in> set ts")
    case True
    then show ?thesis unfolding step by (rule Cons.IH)
  next
    case False
    with Cons.prems have pt: "p = t" by simp
    show ?thesis
    proof (cases "files w t")
      case None
      then show ?thesis
        unfolding step using pt cleanup_files_None [of w t E ts] by simp
    next
      case (Some c)
      show ?thesis
      proof (cases "unlink_error E t")
        case None
        then show ?thesis
          unfolding step using Some pt
            cleanup_files_None [of "logged INFO (''Cleaned up temp config file: '' @ t)
                                      (w\<lparr>files := (files w)(t := None)\<rparr>)" t E ts]
          by simp
      next
        case (Some e)
        have "(WARNING, ''Could not delete temp file '' @ t @ '': '' @ str_exn e)
              \<in> set (log (logged WARNING (''Could not delete temp file '' @ t @ '': ''
                                           @ str_exn e) w))"
          by simp
        then have "(WARNING, ''Could not delete temp file '' @ t @ '': '' @ str_exn e)
              \<in> set (log (cleanup E ts (logged WARNING (''Could not delete temp file '' @ t
                                                        @ '': '' @ str_exn e) w)))"
          using cleanup_log_mono by blast
        then show ?thesis
          unfolding step using Some \<open>files w t = Some c\<close> pt by simp
      qed
    qed
  qed
qed

subsection \<open>Preparing the configuration files\<close>

lemma load_defaults_frame:
  "files (snd (load_defaults E w p)) = files w"
  "temps (snd (load_defaults E w p)) = temps w"
  "calls (snd (load_defaults E w p)) = calls w"
  by (simp_all add: load_defaults_def split: option.splits sum.splits)

lemma merge_config_with_defaults_frame:
  "files (snd (merge_config_with_defaults E w ov p k)) = files w"
  "temps (snd (merge_config_with_defaults E w ov p k)) = temps w"
  "calls (snd (merge_config_with_defaults E w ov p k)) = calls w"
  using load_defaults_frame [of E w p]
  by (auto simp: merge_config_with_defaults_def
      split: prod.splits option.splits val.splits sum.splits)

lemma create_temp_config_file_frame:
  "calls (snd (create_temp_config_file E w c pre)) = calls w"
  "\<not> isl (fst (create_temp_config_file E w c pre))
   \<Longrightarrow> temps (snd (create_temp_config_file E w c pre)) = Suc (temps w)"
  by (auto simp: create_temp_config_file_def Let_def
      split: sum.splits write_outcome.splits)

lemma prepare_config_frame:
  assumes "prepare_config E w ov f k pre = (x, ts, w1)"
  shows "calls w1 = calls w"
    and "\<not> isl x \<Longrightarrow> temps w1 = temps w + length ts"
proof -
  obtain m wm where m: "merge_config_with_defaults E w ov f k = (m, wm)"
    by (cases "merge_config_with_defaults E w ov f k")
  have fm: "temps wm = temps w" "calls wm = calls w"
    using merge_config_with_defaults_frame [of E w ov f k] m by simp_all
  show "calls w1 = calls w"
  proof (cases m)
    case (Inl e)
    then show ?thesis using assms m fm by (auto simp: prepare_config_def)
  next
    case (Inr cfg)
    obtain y wc where c: "create_temp_config_file E wm cfg pre = (y, wc)"
      by (cases "create_temp_config_file E wm cfg pre")
    have fc: "calls wc = calls wm"
      using create_temp_config_file_frame [of E wm cfg pre] c by simp_all
    show ?thesis
      using assms m Inr c fm fc by (auto simp: prepare_config_def split: if_splits sum.splits)
  qed
  show "\<not> isl x \<Longrightarrow> temps w1 = temps w + length ts"
  proof (cases m)
    case (Inl e)
    assume "\<not> isl x"
    then show ?thesis using Inl assms m fm by (auto simp: prepare_config_def)
  next
    case (Inr cfg)
    assume nx: "\<not> isl x"
    obtain y wc where c: "create_temp_config_file E wm cfg pre = (y, wc)"
      by (cases "create_temp_config_file E wm cfg pre")
    have fc: "calls wc = calls wm" "\<not> isl y \<Longrightarrow> temps wc = Suc (temps wm)"
      using create_temp_config_file_frame [of E wm cfg pre] c by simp_all
    show ?thesis
      using nx assms m Inr c fm fc
      by (auto simp: prepare_config_def split: if_splits sum.splits)
  qed
qed

lemma prepare_files_frame:
  assumes "prepare_files E w ov = (x, ts, w1)"
  shows "calls w1 = calls w"
    and "\<not> isl x \<Longrightarrow> temps w1 = temps w + length ts"
proof -
  let ?jf = "server_dir E @ ''/config/jira_config.yaml''"
  let ?gf = "server_dir E @ ''/config/github_config.yaml''"
  obtain a t1 wa where a: "prepare_config E w ov ?jf ''jira'' ''jira_mcp_'' = (a, t1, wa)"
    by (cases "prepare_config E w ov ?jf ''jira'' ''jira_mcp_''")
  obtain b t2 wb where b: "prepare_config E wa ov ?gf ''github'' ''github_mcp_'' = (b, t2, wb)"
    by (cases "prepare_config E wa ov ?gf ''github'' ''github_mcp_''")
  note fa = prepare_config_frame [OF a]
  note fb = prepare_config_frame [OF b]
  show "calls w1 = calls w"
    using assms a b fa(1) fb(1)
    by (auto simp: prepare_files_def Let_def split: if_splits sum.splits)
  show "\<not> isl x \<Longrightarrow> temps w1 = temps w + length ts"
    using assms a b fa(2) fb(2)
    by (auto simp: prepare_files_def Let_def split: if_splits sum.splits)
qed

lemma try_body_after_prepare:
  assumes "prepare_files E w ov = (Inr (jf, gf), ts, wg)"
  shows "try_body E w ov js je jt ght cs ce
         = (Inr (jira_section (jira_summary E (files wg) jf js je jt cs ce),
                 github_section (github_summary E (files wg) gf ght cs ce)),
            ts, snd (gather E wg jf gf js je jt ght cs ce))"
proof -
  obtain r wz where g: "gather E wg jf gf js je jt ght cs ce = (r, wz)"
    by (cases "gather E wg jf gf js je jt ght cs ce")
  with gather_result [of E wg jf gf js je jt ght cs ce]
  have "r = (jira_section (jira_summary E (files wg) jf js je jt cs ce),
             github_section (github_summary E (files wg) gf ght cs ce))"
    by simp
  then show ?thesis using assms g by (simp add: try_body_def)
qed

lemma try_body_registered:
  assumes "try_body E w ov js je jt ght cs ce = (x, ts, w1)" and "\<not> isl x"
  shows "temps w1 = temps w + length ts"
proof -
  obtain y ts' wp where p: "prepare_files E w ov = (y, ts', wp)"
    by (cases "prepare_files E w ov") auto
  show ?thesis
  proof (cases y)
    case (Inl e)
    with p assms show ?thesis by (auto simp: try_body_def)
  next
    case (Inr fs)
    obtain jf gf where fs: "fs = (jf, gf)" by (cases fs)
    have "temps wp = temps w + length ts'"
      using prepare_files_frame(2) [OF p] Inr by simp
    moreover have "ts = ts'" "temps w1 = temps wp"
      using assms(1) p Inr fs gather_frame(2) [of E wp jf gf js je jt ght cs ce]
      by (auto simp: try_body_def split: prod.splits)
    ultimately show ?thesis by simp
  qed
qed

text \<open>
  The \<open>finally\<close> block and the files that are registered. However the \<open>try\<close> block is
  left, with an exception or with the two sections, the \<open>finally\<close> block does not change
  that outcome, and every path in \<open>temp_files_to_cleanup\<close> is afterwards gone, or its
  removal has failed and a warning that names the file and the failure is in the log.
  When the block is left with the two sections, the registered files are all the files
  that \<open>mkstemp\<close> has made during the run.
\<close>

lemma registered_temp_files_cleaned_up:
  assumes "try_body E w ov js je jt ght cs ce = (outcome, temp_files, w1)"
  shows "aggregate E w ov js je jt ght cs ce = (outcome, cleanup E temp_files w1)
         \<and> (\<forall>p \<in> set temp_files.
               files (cleanup E temp_files w1) p = None
               \<or> (\<exists>e. unlink_error E p = Some e
                       \<and> (WARNING, ''Could not delete temp file '' @ p @ '': '' @ str_exn e)
                           \<in> set (log (cleanup E temp_files w1))))
         \<and> (\<not> isl outcome \<longrightarrow> temps w1 = temps w + length temp_files)"
  using assms cleanup_removes [of _ temp_files E w1] try_body_registered [OF assms]
  by (simp add: aggregate_def)

text \<open>
  Where the removal itself fails, the run goes on: the outcome of the stage is the same,
  the file is still there, and the warning is in the log.
\<close>

lemma cleanup_failure_example:
  "fst (aggregate example_env_sticky example_world (Some example_overrides)
          ''https://jira.example'' ''a@b.c'' ''t1'' ''t2'' ''2024-01-10'' ''2024-01-03'')
     = Inr (''**Error generating Jira report:** boom\<newline>\<newline>'', ''3 pull requests'')
   \<and> files (snd (aggregate example_env_sticky example_world (Some example_overrides)
                    ''https://jira.example'' ''a@b.c'' ''t1'' ''t2'' ''2024-01-10''
                    ''2024-01-03'')) ''/tmp/jira_mcp_0.yaml'' = Some ''dumped''
   \<and> last (log (snd (aggregate example_env_sticky example_world (Some example_overrides)
                        ''https://jira.example'' ''a@b.c'' ''t1'' ''t2'' ''2024-01-10''
                        ''2024-01-03'')))
       = (WARNING, ''Could not delete temp file /tmp/jira_mcp_0.yaml: busy'')"
  by code_simp

subsection \<open>Enriching and saving\<close>

lemma add_summary_frame:
  "files (snd (add_summary E w gs sp c)) = files w"
  "temps (snd (add_summary E w gs sp c)) = temps w"
  "calls (snd (add_summary E w gs sp c)) = calls w"
  by (simp_all add: add_summary_def Let_def split: sum.splits)

lemma add_summary_extends: "\<exists>rest. fst (add_summary E w gs sp c) = c @ rest"
  by (simp add: add_summary_def Let_def split: sum.splits)

lemma add_summary_text:
  "fst (add_summary E w gs sp c) = fst (add_summary E w' gs sp c)"
  by (simp add: add_summary_def Let_def split: sum.splits)

lemma save_report_written:
  assumes "mkdir_error E (reports_dir E) = None"
    and "write_result E (report_file E cs ce) c = Written"
  shows "fst (save_report E w c cs ce) = Inr (report_file E cs ce)"
    and "files (snd (save_report E w c cs ce)) = (files w)(report_file E cs ce \<mapsto> c)"
    and "calls (snd (save_report E w c cs ce)) = calls w"
  using assms by (simp_all add: save_report_def get_report_path_ok)

lemma persist_written:
  assumes "mkdir_error E (reports_dir E) = None"
    and "write_result E (report_file E cs ce) c = Written"
  shows "fst (persist E w c cs ce) = success_text cs ce (report_file E cs ce) c"
    and "files (snd (persist E w c cs ce)) = (files w)(report_file E cs ce \<mapsto> c)"
    and "calls (snd (persist E w c cs ce)) = calls w"
  using save_report_written [OF assms, of w]
  by (auto simp: persist_def split: prod.splits sum.splits)

lemma persist_failed:
  assumes "fst (save_report E w c cs ce) = Inl e"
  shows "fst (persist E w c cs ce) = save_error_text e c"
  using assms by (auto simp: persist_def split: prod.splits sum.splits)

lemma save_error_is_not_success: "save_error_text e c \<noteq> success_text cs ce p c'"
  by (simp add: save_error_text_def success_text_def)

subsection \<open>The deep merge, key by key\<close>

lemma map_of_deep_update_tree_step:
  "deep_update_tree base ((k, v) # updates)
   = deep_update_tree (AList.update k (merge_val (map_of base k) v) base) updates"
  by (simp split: val.splits option.splits)

lemma map_of_deep_update_tree_other:
  "k \<notin> fst ` set updates \<Longrightarrow> map_of (deep_update_tree base updates) k = map_of base k"
proof (induction updates arbitrary: base)
  case Nil
  then show ?case by simp
next
  case (Cons u updates)
  obtain k' v where u: "u = (k', v)" by (cases u)
  from Cons.prems u have ne: "k' \<noteq> k" and notin: "k \<notin> fst ` set updates" by auto
  show ?case
    unfolding u map_of_deep_update_tree_step
    using Cons.IH [OF notin] ne by (simp add: update_conv')
qed

lemma map_of_deep_update_tree_key:
  assumes "distinct (map fst updates)" and "map_of updates k = Some v"
  shows "map_of (deep_update_tree base updates) k = Some (merge_val (map_of base k) v)"
  using assms
proof (induction updates arbitrary: base)
  case Nil
  then show ?case by simp
next
  case (Cons u updates)
  obtain k' v' where u: "u = (k', v')" by (cases u)
  show ?case
  proof (cases "k' = k")
    case True
    with Cons.prems u have v: "v' = v" and notin: "k \<notin> fst ` set updates" by auto
    show ?thesis
      unfolding u map_of_deep_update_tree_step
      using map_of_deep_update_tree_other [OF notin] True v by (simp add: update_conv')
  next
    case False
    with Cons.prems u have d: "distinct (map fst updates)" and m: "map_of updates k = Some v"
      by auto
    show ?thesis
      unfolding u map_of_deep_update_tree_step
      using Cons.IH [OF d m] False by (simp add: update_conv')
  qed
qed

lemma map_of_deep_update_tree:
  assumes "distinct (map fst updates)"
  shows "map_of (deep_update_tree base updates) k
         = (case map_of updates k of
              None \<Rightarrow> map_of base k
            | Some v \<Rightarrow> Some (merge_val (map_of base k) v))"
proof (cases "map_of updates k")
  case None
  then have "k \<notin> fst ` set updates" by (simp add: map_of_eq_None_iff)
  then show ?thesis using None by (simp add: map_of_deep_update_tree_other)
next
  case (Some v)
  then show ?thesis using assms by (simp add: map_of_deep_update_tree_key)
qed

subsection \<open>The deep merge in place, on a document without shared mappings\<close>

text \<open>
  On a mapping object that represents a tree, \<open>deep_update_at\<close> does in place what
  \<open>deep_update_tree\<close> does by value: the object represents the merged tree afterwards,
  and no object outside it is changed. So the deep merge of a document without shared
  mappings does not depend on how the loader holds its mappings.
\<close>

inductive_cases represents_RefE: "represents s (Ref a) v F"
inductive_cases represents_TreeE: "represents s (Tree x) v F"
inductive_cases represents_ItemsE: "represents s (Items xs) v F"

lemma represents_cong:
  "represents s x v F \<Longrightarrow> (\<forall>b\<in>F. s' b = s b) \<Longrightarrow> represents s' x v F"
  "represents_list s xs vs F \<Longrightarrow> (\<forall>b\<in>F. s' b = s b) \<Longrightarrow> represents_list s' xs vs F"
  "represents_slots s ob d F \<Longrightarrow> (\<forall>b\<in>F. s' b = s b) \<Longrightarrow> represents_slots s' ob d F"
proof (induction rule: represents_represents_list_represents_slots.inducts)
  case (object s a d F)
  then have "represents_slots s' (s' a) d F" by simp
  then show ?case using object.hyps(2) by (rule represents_represents_list_represents_slots.object)
qed (auto intro: represents_represents_list_represents_slots.intros)

lemma slots_new_key_aux:
  "represents s x v F \<Longrightarrow> True"
  "represents_list s xs vs F \<Longrightarrow> True"
  "represents_slots s ob d F \<Longrightarrow> map_of ob k = None
   \<Longrightarrow> map_of d k = None
       \<and> represents_slots s (AList.update k (Tree v') ob) (AList.update k v' d) F"
proof (induction rule: represents_represents_list_represents_slots.inducts)
  case (no_slots s)
  have "represents_slots s [(k, Tree v')] [(k, v')] ({} \<union> {})"
    by (intro slot by_value represents_represents_list_represents_slots.no_slots) simp
  then show ?case by simp
next
  case (slot s x v F1 ob d F2 k')
  then show ?case
    by (auto intro: represents_represents_list_represents_slots.slot split: if_splits)
qed simp_all

lemma slots_old_key_aux:
  "represents s y w F \<Longrightarrow> True"
  "represents_list s xs vs F \<Longrightarrow> True"
  "represents_slots s ob d F \<Longrightarrow> map_of ob k = Some x
   \<Longrightarrow> \<exists>v Fx Fr. map_of d k = Some v \<and> represents s x v Fx \<and> Fx \<inter> Fr = {} \<and> F = Fx \<union> Fr
         \<and> (\<forall>s' x' v' F'. represents s' x' v' F' \<longrightarrow> F' \<subseteq> Fx \<longrightarrow> (\<forall>b\<in>Fr. s' b = s b)
              \<longrightarrow> represents_slots s' (AList.update k x' ob) (AList.update k v' d) (F' \<union> Fr))"
proof (induction rule: represents_represents_list_represents_slots.inducts)
  case (slot s y v F1 ob d F2 k')
  show ?case
  proof (cases "k' = k")
    case True
    with slot.prems have xy: "y = x" by simp
    have "represents_slots s' ((k, x') # ob) ((k, v') # d) (F' \<union> F2)"
      if "represents s' x' v' F'" "F' \<subseteq> F1" "\<forall>b\<in>F2. s' b = s b" for s' x' v' F'
    proof -
      have "represents_slots s' ob d F2" using represents_cong(3) [OF slot.hyps(2)] that(3) by blast
      moreover have "F' \<inter> F2 = {}" using that(2) slot.hyps(3) by blast
      ultimately show ?thesis using that(1)
        by (intro represents_represents_list_represents_slots.slot)
    qed
    then show ?thesis
      using True xy slot.hyps(1,3) by (intro exI [of _ v] exI [of _ F1] exI [of _ F2]) simp
  next
    case False
    with slot.prems have m: "map_of ob k = Some x" by simp
    from slot.IH(2) [OF m] obtain v0 Fx Fr where
      a: "map_of d k = Some v0" "represents s x v0 Fx" "Fx \<inter> Fr = {}" "F2 = Fx \<union> Fr"
      and r: "\<And>s' x' v' F'. represents s' x' v' F' \<Longrightarrow> F' \<subseteq> Fx \<Longrightarrow> (\<forall>b\<in>Fr. s' b = s b)
              \<Longrightarrow> represents_slots s' (AList.update k x' ob) (AList.update k v' d) (F' \<union> Fr)"
      by blast
    have "represents_slots s' (AList.update k x' ((k', y) # ob)) (AList.update k v' ((k', v) # d))
            (F' \<union> (F1 \<union> Fr))"
      if "represents s' x' v' F'" "F' \<subseteq> Fx" "\<forall>b\<in>F1 \<union> Fr. s' b = s b" for s' x' v' F'
    proof -
      have 1: "represents_slots s' (AList.update k x' ob) (AList.update k v' d) (F' \<union> Fr)"
        using r [OF that(1,2)] that(3) by blast
      have 2: "represents s' y v F1" using represents_cong(1) [OF slot.hyps(1)] that(3) by blast
      have 3: "F1 \<inter> (F' \<union> Fr) = {}" using slot.hyps(3) a(4) that(2) by blast
      have "represents_slots s' ((k', y) # AList.update k x' ob) ((k', v) # AList.update k v' d)
              (F1 \<union> (F' \<union> Fr))"
        using 2 1 3 by (rule represents_represents_list_represents_slots.slot)
      moreover have "F1 \<union> (F' \<union> Fr) = F' \<union> (F1 \<union> Fr)" by blast
      ultimately show ?thesis using False by simp
    qed
    moreover have "Fx \<inter> (F1 \<union> Fr) = {}" using a(3,4) slot.hyps(3) by blast
    moreover have "F1 \<union> F2 = Fx \<union> (F1 \<union> Fr)" using a(4) by blast
    ultimately show ?thesis
      using a(1,2) False by (intro exI [of _ v0] exI [of _ Fx] exI [of _ "F1 \<union> Fr"]) simp
  qed
qed simp_all


lemmas slots_new_key = slots_new_key_aux(3)
lemmas slots_old_key = slots_old_key_aux(3)

lemma deep_update_at_unshared:
  "represents s (Ref a) (VDict d) F
   \<Longrightarrow> \<exists>F'. F' \<subseteq> F
         \<and> represents (deep_update_at s a u) (Ref a) (VDict (deep_update_tree d u)) F'
         \<and> (\<forall>b. b \<notin> F \<longrightarrow> deep_update_at s a u b = s b)"
proof (induction s a u arbitrary: d F rule: deep_update_at.induct)
  case (1 s a)
  then show ?case by auto
next
  case (2 s a k v updates)
  define s1 where "s1 =
       (case v of
          VDict vd \<Rightarrow>
            (case map_of (s a) k of
               Some (Ref b) \<Rightarrow>
                 (let s' = deep_update_at s b vd
                  in s'(a := AList.update k (Ref b) (s' a)))
             | Some (Tree (VDict bd)) \<Rightarrow>
                 s(a := AList.update k (Tree (VDict (deep_update_tree bd vd))) (s a))
             | _ \<Rightarrow> s(a := AList.update k (Tree v) (s a)))
        | _ \<Rightarrow> s(a := AList.update k (Tree v) (s a)))"
  define d1 where "d1 = AList.update k (merge_val (map_of d k) v) d"
  from "2.prems" obtain F0 where F: "F = insert a F0" "a \<notin> F0"
    and sl: "represents_slots s (s a) d F0"
    by (auto elim: represents_RefE)
  have step: "\<exists>F1. F1 \<subseteq> F \<and> represents s1 (Ref a) (VDict d1) F1 \<and> (\<forall>b. b \<notin> F \<longrightarrow> s1 b = s b)"
  proof (cases "map_of (s a) k")
    case None
    have s1: "s1 = s(a := AList.update k (Tree v) (s a))"
      using None by (simp add: s1_def split: val.splits)
    from slots_new_key [OF sl None, of v]
    have dk: "map_of d k = None"
      and r: "represents_slots s (AList.update k (Tree v) (s a)) (AList.update k v d) F0"
      by simp_all
    have d1: "d1 = AList.update k v d" using dk by (simp add: d1_def)
    have "represents_slots s1 (s1 a) d1 F0"
      using represents_cong(3) [OF r, of s1] F(2) by (simp add: s1 d1)
    then have "represents s1 (Ref a) (VDict d1) (insert a F0)"
      using F(2) by (rule object)
    then show ?thesis using F s1 by auto
  next
    case (Some x)
    from slots_old_key [OF sl Some] obtain v0 Fx Fr where
      dk: "map_of d k = Some v0" and rx: "represents s x v0 Fx"
      and dis: "Fx \<inter> Fr = {}" and F0: "F0 = Fx \<union> Fr"
      and rebuild: "\<And>s' x' v' F'. represents s' x' v' F' \<Longrightarrow> F' \<subseteq> Fx
              \<Longrightarrow> (\<forall>b\<in>Fr. s' b = s b)
              \<Longrightarrow> represents_slots s' (AList.update k x' (s a)) (AList.update k v' d) (F' \<union> Fr)"
      by blast
    have by_value_case: ?thesis
      if s1: "s1 = s(a := AList.update k (Tree t) (s a))"
        and d1: "d1 = AList.update k t d" for t
    proof -
      have "represents s1 (Tree t) t {}" by (rule by_value)
      moreover have "\<forall>b\<in>Fr. s1 b = s b" using F(2) F0 by (auto simp: s1)
      ultimately have "represents_slots s1 (AList.update k (Tree t) (s a)) (AList.update k t d)
                         ({} \<union> Fr)"
        by (intro rebuild) auto
      then have "represents_slots s1 (s1 a) d1 Fr" by (simp add: s1 d1)
      moreover have "a \<notin> Fr" using F(2) F0 by simp
      ultimately have "represents s1 (Ref a) (VDict d1) (insert a Fr)" by (rule object)
      then show ?thesis using F F0 s1 by auto
    qed
    show ?thesis
    proof (cases v)
      case (VDict vd)
      show ?thesis
      proof (cases x)
        case (Ref b)
        from rx Ref obtain bd where v0: "v0 = VDict bd" by (auto elim: represents_RefE)
        have rb: "represents s (Ref b) (VDict bd) Fx" using rx Ref v0 by simp
        from "2.IH"(1) [OF VDict Some Ref rb]
        obtain F' where sub: "F' \<subseteq> Fx"
          and r': "represents (deep_update_at s b vd) (Ref b) (VDict (deep_update_tree bd vd)) F'"
          and frame: "\<And>c. c \<notin> Fx \<Longrightarrow> deep_update_at s b vd c = s c"
          by auto
        have aFx: "a \<notin> Fx" using F(2) F0 by simp
        have s1: "s1 = (deep_update_at s b vd)(a := AList.update k (Ref b) (s a))"
          using Some Ref VDict frame [OF aFx] by (simp add: s1_def Let_def)
        have d1: "d1 = AList.update k (VDict (deep_update_tree bd vd)) d"
          using dk v0 VDict by (simp add: d1_def)
        have "a \<notin> F'" using sub aFx by blast
        then have 1: "represents s1 (Ref b) (VDict (deep_update_tree bd vd)) F'"
          using represents_cong(1) [OF r', of s1] by (simp add: s1)
        have 2: "\<forall>c\<in>Fr. s1 c = s c"
          using F(2) F0 dis frame by (auto simp: s1)
        have "represents_slots s1 (AList.update k (Ref b) (s a))
                (AList.update k (VDict (deep_update_tree bd vd)) d) (F' \<union> Fr)"
          using 1 sub 2 by (rule rebuild)
        then have "represents_slots s1 (s1 a) d1 (F' \<union> Fr)" by (simp add: s1 d1)
        moreover have "a \<notin> F' \<union> Fr" using \<open>a \<notin> F'\<close> F(2) F0 by simp
        ultimately have "represents s1 (Ref a) (VDict d1) (insert a (F' \<union> Fr))" by (rule object)
        moreover have "insert a (F' \<union> Fr) \<subseteq> F" using sub F F0 by auto
        moreover have "\<forall>c. c \<notin> F \<longrightarrow> s1 c = s c" using F F0 frame by (auto simp: s1)
        ultimately show ?thesis by blast
      next
        case (Tree t)
        from rx Tree have v0: "v0 = t" by (auto elim: represents_TreeE)
        show ?thesis
        proof (cases t)
          case (VDict bd)
          show ?thesis
            using Some Tree VDict \<open>v = VDict vd\<close> dk v0
            by (intro by_value_case [of "VDict (deep_update_tree bd vd)"])
               (simp_all add: s1_def d1_def)
        qed (use Some Tree \<open>v = VDict vd\<close> dk v0 in
             \<open>(intro by_value_case [of v]; simp add: s1_def d1_def)+\<close>)
      next
        case (Items xs)
        from rx Items obtain vs where v0: "v0 = VList vs" by (auto elim: represents_ItemsE)
        show ?thesis
          using Some Items \<open>v = VDict vd\<close> dk v0
          by (intro by_value_case [of v]) (simp_all add: s1_def d1_def)
      qed
    qed (use Some dk in \<open>(intro by_value_case [of v]; simp add: s1_def d1_def)+\<close>)
  qed
  then obtain F1 where F1: "F1 \<subseteq> F" and r1: "represents s1 (Ref a) (VDict d1) F1"
    and fr1: "\<And>b. b \<notin> F \<Longrightarrow> s1 b = s b"
    by blast
  from "2.IH"(2) [folded s1_def, OF r1] obtain F' where
    "F' \<subseteq> F1" "represents (deep_update_at s1 a updates) (Ref a)
                   (VDict (deep_update_tree d1 updates)) F'"
    "\<And>b. b \<notin> F1 \<Longrightarrow> deep_update_at s1 a updates b = s1 b"
    by blast
  moreover have "deep_update_at s a ((k, v) # updates) = deep_update_at s1 a updates"
    by (simp add: s1_def)
  moreover have "deep_update_tree d ((k, v) # updates) = deep_update_tree d1 updates"
    unfolding map_of_deep_update_tree_step d1_def ..
  ultimately show ?case using F1 fr1 by (metis subset_iff)
qed

inductive_cases represents_slots_ConsE: "represents_slots s (p # ob) d F"

lemma deep_update_unshared:
  assumes "represents s root (VDict d) F"
  shows "\<exists>root' s' F'. deep_update (root, s) u = Inr (root', s')
           \<and> represents s' root' (VDict (deep_update_tree d u)) F'
           \<and> F' \<subseteq> F \<and> (\<forall>b. b \<notin> F \<longrightarrow> s' b = s b)"
proof (cases root)
  case (Tree t)
  with assms have t: "t = VDict d" and F: "F = {}" by (auto elim: represents_TreeE)
  have "deep_update (Tree (VDict d), s) u = Inr (Tree (VDict (deep_update_tree d u)), s)"
    by (cases u) simp_all
  moreover have "represents s (Tree (VDict (deep_update_tree d u))) (VDict (deep_update_tree d u)) {}"
    by (rule by_value)
  ultimately show ?thesis using Tree t F by auto
next
  case (Ref a)
  have "deep_update (Ref a, s) u = Inr (Ref a, deep_update_at s a u)"
    by (cases u) simp_all
  then show ?thesis
    using deep_update_at_unshared [OF assms [unfolded Ref], of u] Ref by auto
next
  case (Items xs)
  with assms show ?thesis by (auto elim: represents_ItemsE)
qed

subsection \<open>The cache hit\<close>

lemma universal_newlines_Nil [simp]: "universal_newlines s = [] \<longleftrightarrow> s = []"
  by (induction s rule: universal_newlines.induct) simp_all

lemma universal_newlines_id:
  "CHR 0x0D \<notin> set s \<Longrightarrow> universal_newlines s = s"
  by (induction s rule: universal_newlines.induct) auto

lemma cache_hit:
  assumes win: "get_week_range (now E) sd ed = Inr (cs, ce)"
    and mk: "mkdir_error E (reports_dir E) = None"
    and present: "files w (report_file E cs ce) = Some content"
    and rd: "read_error E (report_file E cs ce) = None"
    and ne: "content \<noteq> []"
  shows "fst (generate_weekly_status E w gt sd ed False gs sp ov)
         = existing_report_text (report_file E cs ce) (universal_newlines content)"
    and "files (snd (generate_weekly_status E w gt sd ed False gs sp ov)) = files w"
    and "calls (snd (generate_weekly_status E w gt sd ed False gs sp ov)) = calls w"
    and "temps (snd (generate_weekly_status E w gt sd ed False gs sp ov)) = temps w"
  using assms
  by (simp_all add: generate_weekly_status_def cache_lookup_def check_report_exists_def
      get_report_path_ok given_def opt_str_def)

lemma add_summary_formatted:
  assumes "str_format E (if given sp then opt_str sp else DEFAULT_SUMMARY_PROMPT) c = Inr filled"
  shows "fst (add_summary E w True sp c)
         = c @ summary_text (if given sp then opt_str sp else DEFAULT_SUMMARY_PROMPT)"
  using assms by (simp add: add_summary_def Let_def)


section \<open>Claims about the reporting window\<close>

text \<open>
  Claim C1, as amended. For every start date string that \<open>strptime\<close> accepts, whose
  weekday is Wednesday and which lies more than seven days after 0001-01-01, and with no
  end date, \<open>get_week_range\<close> returns the start as given and an end date equal to the
  start minus 7 days; the weekday of that end date is Wednesday again (weekday 2), not
  Tuesday. A Wednesday in the first week of year 1 has no such end date: the subtraction
  raises \<open>OverflowError\<close>.
\<close>

theorem get_week_range_default_end:
  assumes "strptime s = Inr d" and "weekday d = 2" and "7 < toordinal d"
  shows "get_week_range today (Some s) None
           = Inr (strftime d, strftime (fromordinal (toordinal d - 7)))
         \<and> toordinal (fromordinal (toordinal d - 7)) = toordinal d - 7
         \<and> weekday (fromordinal (toordinal d - 7)) = 2"
proof -
  have v: "valid_date d" using assms(1) by (rule strptime_valid)
  have g: "given (Some s)" using strptime_nonempty [OF assms(1)] by (simp add: given_def)
  show ?thesis
    using g assms minus_days_week [OF v assms(3)]
    by (simp add: get_week_range_def given_def)
qed

theorem get_week_range_default_end_witness:
  "get_week_range \<lparr>year = 2025, month = 11, day = 4\<rparr> (Some ''2024-01-17'') None
     = Inr (strftime \<lparr>year = 2024, month = 1, day = 17\<rparr>,
            strftime (fromordinal (toordinal \<lparr>year = 2024, month = 1, day = 17\<rparr> - 7)))
   \<and> toordinal (fromordinal (toordinal \<lparr>year = 2024, month = 1, day = 17\<rparr> - 7))
       = toordinal \<lparr>year = 2024, month = 1, day = 17\<rparr> - 7
   \<and> weekday (fromordinal (toordinal \<lparr>year = 2024, month = 1, day = 17\<rparr> - 7)) = 2"
proof -
  have p: "strptime ''2024-01-17'' = Inr \<lparr>year = 2024, month = 1, day = 17\<rparr>"
    by code_simp
  have w: "weekday \<lparr>year = 2024, month = 1, day = 17\<rparr> = 2"
    by code_simp
  have o: "7 < toordinal \<lparr>year = 2024, month = 1, day = 17\<rparr>"
    by code_simp
  show ?thesis by (rule get_week_range_default_end [OF p w o])
qed

text \<open>
  The claim as stated fails on the start date 2024-01-10, a Wednesday: the end date
  returned is 2024-01-03, and its weekday is 2 (Wednesday), not 1 (Tuesday).
\<close>

theorem get_week_range_default_end_counterexample:
  "strptime ''2024-01-10'' = Inr \<lparr>year = 2024, month = 1, day = 10\<rparr>
   \<and> weekday \<lparr>year = 2024, month = 1, day = 10\<rparr> = 2
   \<and> get_week_range \<lparr>year = 2025, month = 11, day = 4\<rparr> (Some ''2024-01-10'') None
       = Inr (''2024-01-10'', ''2024-01-03'')
   \<and> strptime ''2024-01-03'' = Inr \<lparr>year = 2024, month = 1, day = 3\<rparr>
   \<and> weekday \<lparr>year = 2024, month = 1, day = 3\<rparr> \<noteq> 1"
  by code_simp

text \<open>
  Claim C10. With both arguments absent \<open>get_week_range\<close> does not raise: for every
  current date the clock can give (a valid date more than seven days after 0001-01-01) it
  returns today and today minus 7 days, both printed as YYYY-MM-DD. No weekday is tested:
  the hypotheses say nothing about the weekday of today, and the end date falls on the
  same weekday as today, whatever it is.
\<close>

theorem get_week_range_defaults:
  assumes "valid_date today" and "7 < toordinal today"
  shows "get_week_range today None None
           = Inr (strftime today, strftime (fromordinal (toordinal today - 7)))
         \<and> toordinal (fromordinal (toordinal today - 7)) = toordinal today - 7
         \<and> weekday (fromordinal (toordinal today - 7)) = weekday today"
  using minus_days_week [OF assms] by (simp add: get_week_range_def given_def)

theorem get_week_range_defaults_witness:
  "get_week_range \<lparr>year = 2025, month = 11, day = 8\<rparr> None None
     = Inr (''2025-11-08'', ''2025-11-01'')
   \<and> weekday \<lparr>year = 2025, month = 11, day = 8\<rparr> = 5
   \<and> weekday (fromordinal (toordinal \<lparr>year = 2025, month = 11, day = 8\<rparr> - 7)) = 5"
proof -
  have v: "valid_date \<lparr>year = 2025, month = 11, day = 8\<rparr>" by code_simp
  have o: "7 < toordinal \<lparr>year = 2025, month = 11, day = 8\<rparr>" by code_simp
  have e: "strftime \<lparr>year = 2025, month = 11, day = 8\<rparr> = ''2025-11-08''" by code_simp
  have f: "strftime (fromordinal (toordinal \<lparr>year = 2025, month = 11, day = 8\<rparr> - 7))
           = ''2025-11-01''" by code_simp
  have w: "weekday \<lparr>year = 2025, month = 11, day = 8\<rparr> = 5" by code_simp
  show ?thesis using get_week_range_defaults [OF v o] e f w by simp
qed


section \<open>Claims about the pipeline\<close>

text \<open>
  Claim C7. For every pair of start and end date strings, while the reports directory
  can be made, the report path is the reports directory followed by the file name
  \<open>Weekly_Report_<start>_to_<end>.md\<close>, the start written first. The path does not
  depend on the state, a second call gives the same path and leaves the state of the
  first as it is, and the window 2024-01-10, 2024-01-03 gives the file name
  \<open>Weekly_Report_2024-01-10_to_2024-01-03.md\<close>.
\<close>

theorem get_report_path_deterministic:
  assumes "mkdir_error E (reports_dir E) = None"
  shows "fst (get_report_path E w start_date end_date)
           = Inr (reports_dir E @ ''/Weekly_Report_'' @ start_date @ ''_to_'' @ end_date @ ''.md'')
         \<and> get_report_path E (snd (get_report_path E w start_date end_date)) start_date end_date
             = get_report_path E w start_date end_date
         \<and> fst (get_report_path E w' start_date end_date)
             = fst (get_report_path E w start_date end_date)
         \<and> fst (get_report_path E w ''2024-01-10'' ''2024-01-03'')
             = Inr (reports_dir E @ ''/Weekly_Report_2024-01-10_to_2024-01-03.md'')"
  using assms by (simp add: get_report_path_def)

theorem get_report_path_deterministic_witness:
  "fst (get_report_path example_env example_world ''2025-11-05'' ''2025-10-29'')
     = Inr ''/srv/Reports/Weekly_Report_2025-11-05_to_2025-10-29.md''
   \<and> get_report_path example_env
         (snd (get_report_path example_env example_world ''2025-11-05'' ''2025-10-29''))
         ''2025-11-05'' ''2025-10-29''
       = get_report_path example_env example_world ''2025-11-05'' ''2025-10-29''
   \<and> fst (get_report_path example_env (example_world_cached ''x'') ''2025-11-05'' ''2025-10-29'')
       = fst (get_report_path example_env example_world ''2025-11-05'' ''2025-10-29'')
   \<and> fst (get_report_path example_env example_world ''2024-01-10'' ''2024-01-03'')
       = Inr ''/srv/Reports/Weekly_Report_2024-01-10_to_2024-01-03.md''"
proof -
  have mk: "mkdir_error example_env (reports_dir example_env) = None"
    by (simp add: example_env_def)
  have dir: "reports_dir example_env = ''/srv/Reports''"
    by (simp add: reports_dir_def example_env_def)
  show ?thesis
    using get_report_path_deterministic [OF mk, of example_world "''2025-11-05''"
        "''2025-10-29''" "example_world_cached ''x''"]
    by (simp add: dir)
qed

text \<open>
  Claim C6, as amended. For every defaults file and source name: with no overrides, with
  an empty override mapping, or with no entry for the source name,
  \<open>merge_config_with_defaults\<close> returns the loaded document as it is, whatever it is.
  With an override mapping for the source name and a loaded document that is a mapping
  in which no mapping is shared through an anchor and its aliases, so that it
  represents a tree \<open>d\<close>: the result is a mapping that represents a tree again, in which
  every key of the override holds the recursive merge when its default value and its
  override value are both mappings and the override value otherwise, and every other key
  holds its default value. The merge of a nested mapping is \<open>deep_update_tree\<close> again, so
  the same holds for the siblings inside it.
\<close>

theorem merge_config_with_defaults_law:
  "fst (merge_config_with_defaults E w None path config_key)
     = Inr (fst (load_defaults E w path))
   \<and> fst (merge_config_with_defaults E w (Some []) path config_key)
       = Inr (fst (load_defaults E w path))
   \<and> (map_of ov config_key = None
        \<longrightarrow> fst (merge_config_with_defaults E w (Some ov) path config_key)
            = Inr (fst (load_defaults E w path)))
   \<and> (map_of ov config_key = Some (VDict u) \<and> distinct (map fst u)
        \<and> represents (snd (fst (load_defaults E w path))) (fst (fst (load_defaults E w path)))
            (VDict d) F
        \<longrightarrow> (\<exists>root' s' m F'.
               fst (merge_config_with_defaults E w (Some ov) path config_key) = Inr (root', s')
               \<and> represents s' root' (VDict m) F'
               \<and> (\<forall>k. map_of m k
                        = (case map_of u k of
                             None \<Rightarrow> map_of d k
                           | Some v \<Rightarrow> Some (merge_val (map_of d k) v)))))"
proof -
  obtain c w1 where l: "load_defaults E w path = (c, w1)" by (cases "load_defaults E w path")
  obtain root s where c: "c = (root, s)" by (cases c)
  have a: "fst (merge_config_with_defaults E w None path config_key) = Inr c"
    using l by (simp add: merge_config_with_defaults_def)
  have b: "fst (merge_config_with_defaults E w (Some []) path config_key) = Inr c"
    using l by (simp add: merge_config_with_defaults_def)
  have n: "map_of ov config_key = None
           \<Longrightarrow> fst (merge_config_with_defaults E w (Some ov) path config_key) = Inr c"
    using l by (simp add: merge_config_with_defaults_def)
  have e: "\<exists>root' s' m F'.
             fst (merge_config_with_defaults E w (Some ov) path config_key) = Inr (root', s')
             \<and> represents s' root' (VDict m) F'
             \<and> (\<forall>k. map_of m k
                      = (case map_of u k of
                           None \<Rightarrow> map_of d k
                         | Some v \<Rightarrow> Some (merge_val (map_of d k) v)))"
    if o: "map_of ov config_key = Some (VDict u)" and di: "distinct (map fst u)"
      and r: "represents s root (VDict d) F"
  proof -
    from o have ne: "ov \<noteq> []" by auto
    from deep_update_unshared [OF r, of u] obtain root' s' F' where
      du: "deep_update (root, s) u = Inr (root', s')"
      and r': "represents s' root' (VDict (deep_update_tree d u)) F'"
      by blast
    have "fst (merge_config_with_defaults E w (Some ov) path config_key) = Inr (root', s')"
      using l c ne o du by (simp add: merge_config_with_defaults_def)
    then show ?thesis using r' map_of_deep_update_tree [OF di] by blast
  qed
  have f: "fst (load_defaults E w path) = (root, s)" using l c by simp
  show ?thesis unfolding f using a b n e c by simp
qed

theorem merge_config_with_defaults_law_witness:
  "fst (merge_config_with_defaults example_env_docs example_world None
          ''/srv/config/jira_config.yaml'' ''jira'')
     = Inr (Ref 0, example_unshared_store)
   \<and> map_of example_overrides ''github'' = None
   \<and> fst (merge_config_with_defaults example_env_docs example_world (Some example_overrides)
            ''/srv/config/jira_config.yaml'' ''github'')
       = Inr (Ref 0, example_unshared_store)
   \<and> map_of example_overrides ''jira'' = Some (VDict example_override_values)
   \<and> distinct (map fst example_override_values)
   \<and> represents example_unshared_store (Ref 0) (VDict example_defaults) {0, 1}
   \<and> (\<exists>root' s' m F'.
         fst (merge_config_with_defaults example_env_docs example_world
                (Some example_overrides) ''/srv/config/jira_config.yaml'' ''jira'')
           = Inr (root', s')
         \<and> represents s' root' (VDict m) F'
         \<and> map_of m (KStr ''team'') = Some (VStr ''core'')
         \<and> map_of m (KStr ''board'') = Some (VInt 7)
         \<and> map_of m (KStr ''fields'')
             = Some (VDict [(KStr ''points'', VStr ''cf9''), (KStr ''sprint'', VStr ''cf2'')]))"
proof -
  let ?s = "example_unshared_store"
  have d: "fst (load_defaults example_env_docs example_world ''/srv/config/jira_config.yaml'')
           = (Ref 0, ?s)"
    by (simp add: load_defaults_def load_yaml_def example_env_docs_def example_env_def
        example_world_def example_unshared_store_def)
  have s0: "?s 0 = [(KStr ''team'', Tree (VStr ''core'')), (KStr ''fields'', Ref 1)]"
    and s1: "?s 1 = [(KStr ''points'', Tree (VStr ''cf1'')), (KStr ''sprint'', Tree (VStr ''cf2''))]"
    by (simp_all add: example_unshared_store_def)
  have "represents_slots ?s (?s 1) [(KStr ''points'', VStr ''cf1''), (KStr ''sprint'', VStr ''cf2'')]
          ({} \<union> ({} \<union> {}))"
    unfolding s1 by (intro slot by_value no_slots) simp_all
  then have "represents ?s (Ref 1)
               (VDict [(KStr ''points'', VStr ''cf1''), (KStr ''sprint'', VStr ''cf2'')])
               (insert 1 ({} \<union> ({} \<union> {})))"
    by (rule object) simp
  then have "represents_slots ?s (?s 0) example_defaults
               ({} \<union> (insert 1 ({} \<union> ({} \<union> {})) \<union> {}))"
    unfolding s0 example_defaults_def by (intro slot by_value no_slots) simp_all
  then have "represents ?s (Ref 0) (VDict example_defaults)
               (insert 0 ({} \<union> (insert 1 ({} \<union> ({} \<union> {})) \<union> {})))"
    by (rule object) simp
  then have r: "represents ?s (Ref 0) (VDict example_defaults) {0, 1}" by simp
  have g: "map_of example_overrides ''github'' = None"
    by (simp add: example_overrides_def)
  have j: "map_of example_overrides ''jira'' = Some (VDict example_override_values)"
    by (simp add: example_overrides_def)
  have u: "distinct (map fst example_override_values)"
    by (simp add: example_override_values_def)
  note law = merge_config_with_defaults_law [of example_env_docs example_world
      "''/srv/config/jira_config.yaml''" _ example_overrides example_override_values
      example_defaults "{0, 1}"]
  have none: "fst (merge_config_with_defaults example_env_docs example_world None
                     ''/srv/config/jira_config.yaml'' ''jira'') = Inr (Ref 0, ?s)"
    using law [of "''jira''"] d by simp
  have other: "fst (merge_config_with_defaults example_env_docs example_world
                      (Some example_overrides) ''/srv/config/jira_config.yaml'' ''github'')
               = Inr (Ref 0, ?s)"
    using law [of "''github''"] g d by simp
  from law [of "''jira''"] j u r d
  obtain root' s' m F' where
    m: "fst (merge_config_with_defaults example_env_docs example_world
               (Some example_overrides) ''/srv/config/jira_config.yaml'' ''jira'')
        = Inr (root', s')"
    and rm: "represents s' root' (VDict m) F'"
    and key: "\<And>k. map_of m k
                = (case map_of example_override_values k of
                     None \<Rightarrow> map_of example_defaults k
                   | Some v \<Rightarrow> Some (merge_val (map_of example_defaults k) v))"
    by auto
  have "map_of m (KStr ''team'') = Some (VStr ''core'')"
    "map_of m (KStr ''board'') = Some (VInt 7)"
    "map_of m (KStr ''fields'')
       = Some (VDict [(KStr ''points'', VStr ''cf9''), (KStr ''sprint'', VStr ''cf2'')])"
    by (simp_all add: key example_override_values_def example_defaults_def)
  then show ?thesis
    using none g other j u r m rm by blast
qed

text \<open>
  The same merge, read off the store: the mapping object of \<open>fields\<close> has been changed
  in place and holds the new \<open>points\<close> beside the old \<open>sprint\<close>.
\<close>

lemma merge_in_place_example:
  "merged_value_at
     (fst (merge_config_with_defaults example_env_docs example_world (Some example_overrides)
             ''/srv/config/jira_config.yaml'' ''jira''))
     [KStr ''fields'', KStr ''points''] = Some (Tree (VStr ''cf9''))
   \<and> merged_value_at
       (fst (merge_config_with_defaults example_env_docs example_world (Some example_overrides)
               ''/srv/config/jira_config.yaml'' ''jira''))
       [KStr ''fields'', KStr ''sprint''] = Some (Tree (VStr ''cf2''))
   \<and> merged_value_at
       (fst (merge_config_with_defaults example_env_docs example_world (Some example_overrides)
               ''/srv/config/jira_config.yaml'' ''jira''))
       [KStr ''fields''] = Some (Ref 1)
   \<and> merged_value_at
       (fst (merge_config_with_defaults example_env_docs example_world (Some example_overrides)
               ''/srv/config/jira_config.yaml'' ''jira''))
       [KStr ''board''] = Some (Tree (VInt 7))
   \<and> merged_value_at
       (fst (merge_config_with_defaults example_env_docs example_world (Some example_overrides)
               ''/srv/config/jira_config.yaml'' ''jira''))
       [KStr ''team''] = Some (Tree (VStr ''core''))"
  by code_simp

text \<open>
  The claim as stated fails twice. In a defaults file whose keys \<open>base\<close> and \<open>copy\<close>
  hold one mapping, through an anchor and an alias, an override of \<open>base.k\<close> changes
  \<open>copy.k\<close> too, though \<open>copy\<close> is absent from the override: \<open>deep_update\<close> changes the
  shared mapping in place. And on a defaults file that holds a list, an override mapping
  for the source name is not merged: \<open>deep_update\<close> raises \<open>TypeError\<close>, and the run
  returns the general error.
\<close>

theorem merge_shared_or_list_defaults_counterexample:
  "value_at (snd (fst (load_defaults example_env_docs example_world_shared
                         ''/srv/config/jira_config.yaml'')))
       (fst (fst (load_defaults example_env_docs example_world_shared
                    ''/srv/config/jira_config.yaml'')))
       [KStr ''copy'', KStr ''k'']
     = Some (Tree (VInt 1))
   \<and> map_of example_overrides_base ''jira''
       = Some (VDict [(KStr ''base'', VDict [(KStr ''k'', VInt 2)])])
   \<and> merged_value_at
         (fst (merge_config_with_defaults example_env_docs example_world_shared
                 (Some example_overrides_base) ''/srv/config/jira_config.yaml'' ''jira''))
         [KStr ''base'', KStr ''k'']
       = Some (Tree (VInt 2))
   \<and> merged_value_at
         (fst (merge_config_with_defaults example_env_docs example_world_shared
                 (Some example_overrides_base) ''/srv/config/jira_config.yaml'' ''jira''))
         [KStr ''copy'', KStr ''k'']
       = Some (Tree (VInt 2))
   \<and> fst (fst (load_defaults example_env_docs example_world_list
                 ''/srv/config/jira_config.yaml''))
       = Tree (VList [VStr ''core''])
   \<and> isl (fst (merge_config_with_defaults example_env_docs example_world_list
                 (Some example_overrides_base) ''/srv/config/jira_config.yaml'' ''jira''))
   \<and> projl (fst (merge_config_with_defaults example_env_docs example_world_list
                   (Some example_overrides_base) ''/srv/config/jira_config.yaml'' ''jira''))
       = TypeError ''list indices must be integers or slices, not str''
   \<and> fst (generate_weekly_status example_env_docs example_world_list None
            (Some ''2024-01-10'') None True False None (Some example_overrides_base))
       = ''Error generating weekly status: list indices must be integers or slices, not str''"
  by code_simp

text \<open>
  The document of the first example represents no tree, so the law above does not speak
  of it.
\<close>

lemma shared_document_represents_no_tree:
  "\<not> represents example_shared_store (Ref 0) v F"
proof
  assume "represents example_shared_store (Ref 0) v F"
  then obtain d F0 where "represents_slots example_shared_store (example_shared_store 0) d F0"
    by (auto elim: represents_RefE)
  then have "represents_slots example_shared_store
               [(KStr ''base'', Ref 1), (KStr ''copy'', Ref 1)] d F0"
    by (simp add: example_shared_store_def)
  then obtain v1 F1 v2 F2 F3 where "represents example_shared_store (Ref 1) v1 F1"
    "represents example_shared_store (Ref 1) v2 F2" "F1 \<inter> (F2 \<union> F3) = {}"
    by (auto elim!: represents_slots_ConsE)
  then show False by (auto elim!: represents_RefE)
qed

text \<open>
  Claim C2, as amended. For every run that reaches the aggregation stage with its
  configuration files prepared, whatever the two generators do: the section of a
  generator that raises is the inline marker, \<open>**Error generating Jira report:**\<close> or
  \<open>**Error generating GitHub report:**\<close>, a blank, the message and an empty line
  (\<open>jira_section\<close>, \<open>github_section\<close>); the section of a generator that returns is its
  full text; both generators are called, the issue tracker first; and, provided the
  report file can be written, the run returns the success text and has saved the report
  that starts with the combined sections.
\<close>

theorem collaborator_failure_isolated:
  assumes reach: "reaches_aggregation E w gt sd ed r ov cs ce w2"
    and prep: "prepare_files E w2 ov = (Inr (jf, gf), temp_files, wg)"
    and mk: "mkdir_error E (reports_dir E) = None"
    and wr: "\<And>c. write_result E (report_file E cs ce) c = Written"
  shows "\<exists>report rest.
           report = combined_report_text cs ce
                      (jira_section (jira_summary E (files wg) jf
                         (opt_str (getenv E ''JIRA_SERVER'')) (opt_str (getenv E ''JIRA_EMAIL''))
                         (opt_str (getenv E ''JIRA_API_TOKEN'')) cs ce))
                      (github_section (github_summary E (files wg) gf
                         (opt_str (effective_github_token E gt)) cs ce))
                      (stamp E) @ rest
         \<and> fst (generate_weekly_status E w gt sd ed r gs sp ov)
             = success_text cs ce (report_file E cs ce) report
         \<and> files (snd (generate_weekly_status E w gt sd ed r gs sp ov)) (report_file E cs ce)
             = Some report
         \<and> calls (snd (generate_weekly_status E w gt sd ed r gs sp ov))
             = calls w @ [JiraCall jf (opt_str (getenv E ''JIRA_SERVER''))
                            (opt_str (getenv E ''JIRA_EMAIL''))
                            (opt_str (getenv E ''JIRA_API_TOKEN'')) cs ce,
                          GitHubCall gf (opt_str (effective_github_token E gt)) cs ce]"
proof -
  let ?js = "opt_str (getenv E ''JIRA_SERVER'')"
  let ?je = "opt_str (getenv E ''JIRA_EMAIL'')"
  let ?jt = "opt_str (getenv E ''JIRA_API_TOKEN'')"
  let ?gt = "opt_str (effective_github_token E gt)"
  let ?j = "jira_section (jira_summary E (files wg) jf ?js ?je ?jt cs ce)"
  let ?g = "github_section (github_summary E (files wg) gf ?gt cs ce)"
  let ?wz = "snd (gather E wg jf gf ?js ?je ?jt ?gt cs ce)"
  let ?w3 = "cleanup E temp_files ?wz"
  let ?c = "combined_report_text cs ce ?j ?g (stamp E)"
  let ?run = "generate_weekly_status E w gt sd ed r gs sp ov"
  have agg: "aggregate E w2 ov ?js ?je ?jt ?gt cs ce = (Inr (?j, ?g), ?w3)"
    using try_body_after_prepare [OF prep, of ?js ?je ?jt ?gt cs ce]
    by (simp add: aggregate_def)
  have run: "?run = finish E ?w3 gs sp cs ce ?j ?g"
    using run_reaches_aggregation [OF reach, of gs sp] agg by simp
  obtain report w4 where s: "add_summary E ?w3 gs sp ?c = (report, w4)"
    by (cases "add_summary E ?w3 gs sp ?c")
  from add_summary_extends [of E ?w3 gs sp ?c] s obtain rest where rest: "report = ?c @ rest"
    by auto
  have c4: "calls w4 = calls ?w3"
    using add_summary_frame(3) [of E ?w3 gs sp ?c] s by simp
  have fin: "?run = persist E w4 report cs ce"
    using run s by (simp add: finish_def)
  note p = persist_written [OF mk wr [of report], of w4]
  have "calls ?w3 = calls w @ [JiraCall jf ?js ?je ?jt cs ce, GitHubCall gf ?gt cs ce]"
    using cleanup_frame(2) [of E temp_files ?wz]
      gather_frame(3) [of E wg jf gf ?js ?je ?jt ?gt cs ce]
      prepare_files_frame(1) [OF prep] reaches_aggregation_frame(3) [OF reach]
    by simp
  then have "fst ?run = success_text cs ce (report_file E cs ce) report
      \<and> files (snd ?run) (report_file E cs ce) = Some report
      \<and> calls (snd ?run) = calls w @ [JiraCall jf ?js ?je ?jt cs ce, GitHubCall gf ?gt cs ce]"
    using fin p c4 by simp
  then show ?thesis using rest by blast
qed

theorem collaborator_failure_isolated_witness:
  "\<exists>rest.
     fst (generate_weekly_status example_env example_world None (Some ''2024-01-10'') None
            True True None (Some example_overrides))
       = success_text ''2024-01-10'' ''2024-01-03''
           ''/srv/Reports/Weekly_Report_2024-01-10_to_2024-01-03.md''
           (combined_report_text ''2024-01-10'' ''2024-01-03''
              ''**Error generating Jira report:** boom\<newline>\<newline>'' ''3 pull requests''
              ''2025-11-08 09:30:00'' @ rest)
     \<and> calls (snd (generate_weekly_status example_env example_world None (Some ''2024-01-10'')
                      None True True None (Some example_overrides)))
         = [JiraCall ''/tmp/jira_mcp_0.yaml'' ''https://jira.example'' ''a@b.c'' ''t1''
              ''2024-01-10'' ''2024-01-03'',
            GitHubCall ''/srv/config/github_config.yaml'' ''t2'' ''2024-01-10'' ''2024-01-03'']"
proof -
  let ?w2 = "snd (load_config_with_overrides example_env
                    (miss_state example_env example_world True ''2024-01-10'' ''2024-01-03'')
                    (Some example_overrides))"
  let ?p = "prepare_files example_env ?w2 (Some example_overrides)"
  have miss: "cache_miss example_env example_world (Some ''2024-01-10'') None True
                ''2024-01-10'' ''2024-01-03''"
    by code_simp
  have load: "\<not> isl (fst (load_config_with_overrides example_env
                (miss_state example_env example_world True ''2024-01-10'' ''2024-01-03'')
                (Some example_overrides)))"
    by code_simp
  have creds: "run_missing example_env None = []" by code_simp
  have imp: "import_error example_env = None" by (simp add: example_env_def)
  have reach: "reaches_aggregation example_env example_world None (Some ''2024-01-10'') None
                 True (Some example_overrides) ''2024-01-10'' ''2024-01-03'' ?w2"
    unfolding reaches_aggregation_def using miss load creds imp by simp
  have p1: "fst ?p = Inr (''/tmp/jira_mcp_0.yaml'', ''/srv/config/github_config.yaml'')"
    by code_simp
  have p2: "fst (snd ?p) = [''/tmp/jira_mcp_0.yaml'']" by code_simp
  have prep: "?p = (Inr (''/tmp/jira_mcp_0.yaml'', ''/srv/config/github_config.yaml''),
                    [''/tmp/jira_mcp_0.yaml''], snd (snd ?p))"
    using p1 p2 by (simp add: prod_eq_iff)
  have mk: "mkdir_error example_env (reports_dir example_env) = None"
    by (simp add: example_env_def)
  have wr: "write_result example_env
              (report_file example_env ''2024-01-10'' ''2024-01-03'') c = Written" for c
    by (simp add: example_env_def)
  have rf: "report_file example_env ''2024-01-10'' ''2024-01-03''
              = ''/srv/Reports/Weekly_Report_2024-01-10_to_2024-01-03.md''"
    by (simp add: report_file_def reports_dir_def example_env_def)
  have js: "jira_section (jira_summary example_env fs cfg a b c d e)
            = ''**Error generating Jira report:** boom\<newline>\<newline>''" for fs cfg a b c d e
    by (simp add: jira_section_def jira_error_text_def example_env_def)
  have gs: "github_section (github_summary example_env fs cfg a b c) = ''3 pull requests''"
    for fs cfg a b c
    by (simp add: github_section_def example_env_def)
  have cr: "opt_str (getenv example_env ''JIRA_SERVER'') = ''https://jira.example''"
    "opt_str (getenv example_env ''JIRA_EMAIL'') = ''a@b.c''"
    "opt_str (getenv example_env ''JIRA_API_TOKEN'') = ''t1''"
    "opt_str (effective_github_token example_env None) = ''t2''"
    "stamp example_env = ''2025-11-08 09:30:00''"
    "calls example_world = []"
    by (simp_all add: opt_str_def effective_github_token_def given_def example_env_def
        example_world_def)
  from collaborator_failure_isolated [OF reach prep mk wr, of True None]
  show ?thesis
    unfolding rf js gs cr by auto
qed

text \<open>
  The claim as stated fails twice. With the issue tracker raising \<open>boom\<close>, the Jira
  section of the saved report is \<open>**Error generating Jira report:** boom\<close> and an empty
  line, not \<open>Error generating Jira report: boom\<close>. And on a disk that cannot be written
  the same run, in which the code host has answered, does not return success and saves
  no file: it returns the error of the failed save.
\<close>

theorem collaborator_failure_marker_counterexample:
  "jira_summary example_env (files example_world) ''/srv/config/jira_config.yaml''
     ''https://jira.example'' ''a@b.c'' ''t1'' ''2024-01-10'' ''2024-01-03''
     = Inl (OSError ''boom'')
   \<and> files (snd (generate_weekly_status example_env example_world None (Some ''2024-01-10'')
                    None True False None None))
         ''/srv/Reports/Weekly_Report_2024-01-10_to_2024-01-03.md''
       = Some (combined_report_text ''2024-01-10'' ''2024-01-03''
                 ''**Error generating Jira report:** boom\<newline>\<newline>'' ''3 pull requests''
                 ''2025-11-08 09:30:00'')
   \<and> files (snd (generate_weekly_status example_env example_world None (Some ''2024-01-10'')
                    None True False None None))
         ''/srv/Reports/Weekly_Report_2024-01-10_to_2024-01-03.md''
       \<noteq> Some (combined_report_text ''2024-01-10'' ''2024-01-03''
                 ''Error generating Jira report: boom'' ''3 pull requests''
                 ''2025-11-08 09:30:00'')
   \<and> jira_summary example_env_disk_full (files example_world) ''/srv/config/jira_config.yaml''
         ''https://jira.example'' ''a@b.c'' ''t1'' ''2024-01-10'' ''2024-01-03''
       = Inl (OSError ''boom'')
   \<and> fst (generate_weekly_status example_env_disk_full example_world None (Some ''2024-01-10'')
            None True False None None)
       = save_error_text (OSError ''disk full'')
           (combined_report_text ''2024-01-10'' ''2024-01-03''
              ''**Error generating Jira report:** boom\<newline>\<newline>'' ''3 pull requests''
              ''2025-11-08 09:30:00'')
   \<and> files (snd (generate_weekly_status example_env_disk_full example_world None
                    (Some ''2024-01-10'') None True False None None))
         ''/srv/Reports/Weekly_Report_2024-01-10_to_2024-01-03.md'' = None"
  by code_simp

text \<open>
  Claim C3, as amended. For every window with an existing, readable and non-empty cached
  report and \<open>regenerate=false\<close>, \<open>generate_weekly_status\<close> returns, after a header that
  names the location of the report, the stored content as a read in text mode gives it:
  every carriage return with its line feed, and every other carriage return, is a line
  feed. Stored content without a carriage return is returned verbatim. The run calls no
  generator, creates no temporary file and changes no file; a second call with the same
  arguments, in the state the first has left, returns the same output and calls no
  generator either.
\<close>

theorem cache_hit_idempotent:
  assumes win: "get_week_range (now E) sd ed = Inr (cs, ce)"
    and mk: "mkdir_error E (reports_dir E) = None"
    and present: "files w (report_file E cs ce) = Some content"
    and rd: "read_error E (report_file E cs ce) = None"
    and ne: "content \<noteq> []"
  shows "fst (generate_weekly_status E w gt sd ed False gs sp ov)
           = ''**Found existing report (use regenerate=true to recreate):**\<newline>\<newline>''
             @ ''**File:** '' @ report_file E cs ce @ ''\<newline>\<newline>''
             @ ''---\<newline>\<newline>'' @ universal_newlines content
         \<and> (CHR 0x0D \<notin> set content
              \<longrightarrow> fst (generate_weekly_status E w gt sd ed False gs sp ov)
                  = ''**Found existing report (use regenerate=true to recreate):**\<newline>\<newline>''
                    @ ''**File:** '' @ report_file E cs ce @ ''\<newline>\<newline>''
                    @ ''---\<newline>\<newline>'' @ content)
         \<and> calls (snd (generate_weekly_status E w gt sd ed False gs sp ov)) = calls w
         \<and> temps (snd (generate_weekly_status E w gt sd ed False gs sp ov)) = temps w
         \<and> files (snd (generate_weekly_status E w gt sd ed False gs sp ov)) = files w
         \<and> fst (generate_weekly_status E
                  (snd (generate_weekly_status E w gt sd ed False gs sp ov))
                  gt sd ed False gs sp ov)
             = fst (generate_weekly_status E w gt sd ed False gs sp ov)
         \<and> calls (snd (generate_weekly_status E
                          (snd (generate_weekly_status E w gt sd ed False gs sp ov))
                          gt sd ed False gs sp ov)) = calls w"
proof -
  let ?w' = "snd (generate_weekly_status E w gt sd ed False gs sp ov)"
  note first = cache_hit [OF assms, of gt gs sp ov]
  have present': "files ?w' (report_file E cs ce) = Some content"
    using first(2) present by simp
  note second = cache_hit [OF win mk present' rd ne, of gt gs sp ov]
  show ?thesis
    using first second by (simp add: existing_report_text_def universal_newlines_id)
qed

theorem cache_hit_idempotent_witness:
  "fst (generate_weekly_status example_env (example_world_cached ''old report'') None
          (Some ''2024-01-10'') None False True None None)
     = ''**Found existing report (use regenerate=true to recreate):**\<newline>\<newline>''
       @ ''**File:** /srv/Reports/Weekly_Report_2024-01-10_to_2024-01-03.md\<newline>\<newline>''
       @ ''---\<newline>\<newline>old report''
   \<and> calls (snd (generate_weekly_status example_env (example_world_cached ''old report'') None
                    (Some ''2024-01-10'') None False True None None)) = []
   \<and> fst (generate_weekly_status example_env
            (snd (generate_weekly_status example_env (example_world_cached ''old report'') None
                    (Some ''2024-01-10'') None False True None None))
            None (Some ''2024-01-10'') None False True None None)
       = fst (generate_weekly_status example_env (example_world_cached ''old report'') None
                (Some ''2024-01-10'') None False True None None)
   \<and> calls (snd (generate_weekly_status example_env
                    (snd (generate_weekly_status example_env (example_world_cached ''old report'')
                            None (Some ''2024-01-10'') None False True None None))
                    None (Some ''2024-01-10'') None False True None None)) = []"
proof -
  have win: "get_week_range (now example_env) (Some ''2024-01-10'') None
             = Inr (''2024-01-10'', ''2024-01-03'')"
    by code_simp
  have mk: "mkdir_error example_env (reports_dir example_env) = None"
    by (simp add: example_env_def)
  have rf: "report_file example_env ''2024-01-10'' ''2024-01-03''
            = ''/srv/Reports/Weekly_Report_2024-01-10_to_2024-01-03.md''"
    by (simp add: report_file_def reports_dir_def example_env_def)
  have present: "files (example_world_cached ''old report'')
                   (report_file example_env ''2024-01-10'' ''2024-01-03'') = Some ''old report''"
    unfolding rf by (simp add: example_world_cached_def)
  have rd: "read_error example_env (report_file example_env ''2024-01-10'' ''2024-01-03'') = None"
    by (simp add: example_env_def)
  have ne: "''old report'' \<noteq> []" by simp
  have cr: "CHR 0x0D \<notin> set ''old report''" by simp
  have cs: "calls (example_world_cached ''old report'') = []"
    by (simp add: example_world_cached_def example_world_def)
  from cache_hit_idempotent [OF win mk present rd ne, of None True None None] cr
  show ?thesis
    unfolding rf cs by simp
qed

text \<open>
  The claim as stated fails twice. On a cached report that exists, is readable and is
  empty, \<open>if existing_report:\<close> takes it for no report, and the run calls both generators
  and returns a fresh report. On a cached report that was stored with a carriage return
  in it, as the text of an issue may bring one, what the run returns is not the stored
  content: the two characters that end its first line come back as one line feed.
\<close>

theorem cache_hit_empty_report_counterexample:
  "files (example_world_cached [])
      ''/srv/Reports/Weekly_Report_2024-01-10_to_2024-01-03.md'' = Some []
   \<and> read_error example_env ''/srv/Reports/Weekly_Report_2024-01-10_to_2024-01-03.md'' = None
   \<and> calls (snd (generate_weekly_status example_env (example_world_cached []) None
                    (Some ''2024-01-10'') None False False None None))
       = [JiraCall ''/srv/config/jira_config.yaml'' ''https://jira.example'' ''a@b.c'' ''t1''
            ''2024-01-10'' ''2024-01-03'',
          GitHubCall ''/srv/config/github_config.yaml'' ''t2'' ''2024-01-10'' ''2024-01-03'']
   \<and> fst (generate_weekly_status example_env (example_world_cached []) None
            (Some ''2024-01-10'') None False False None None)
       \<noteq> existing_report_text ''/srv/Reports/Weekly_Report_2024-01-10_to_2024-01-03.md'' []
   \<and> files (example_world_cached (''line 1'' @ [CHR 0x0D, CHR 0x0A] @ ''line 2''))
        ''/srv/Reports/Weekly_Report_2024-01-10_to_2024-01-03.md''
       = Some (''line 1'' @ [CHR 0x0D, CHR 0x0A] @ ''line 2'')
   \<and> fst (generate_weekly_status example_env
            (example_world_cached (''line 1'' @ [CHR 0x0D, CHR 0x0A] @ ''line 2'')) None
            (Some ''2024-01-10'') None False False None None)
       = existing_report_text ''/srv/Reports/Weekly_Report_2024-01-10_to_2024-01-03.md''
           (''line 1'' @ [CHR 0x0A] @ ''line 2'')
   \<and> fst (generate_weekly_status example_env
            (example_world_cached (''line 1'' @ [CHR 0x0D, CHR 0x0A] @ ''line 2'')) None
            (Some ''2024-01-10'') None False False None None)
       \<noteq> existing_report_text ''/srv/Reports/Weekly_Report_2024-01-10_to_2024-01-03.md''
           (''line 1'' @ [CHR 0x0D, CHR 0x0A] @ ''line 2'')"
  by code_simp

text \<open>
  Claim C4, as amended. For every cache-miss run in which loading the configuration with
  the overrides raises no exception and which misses one or more of the four required
  credentials (a credential is missing when it is unset or empty; the GitHub token is
  taken from the parameter first), the pipeline returns the single error that lists
  exactly the missing items, in the order JIRA_SERVER, JIRA_EMAIL, JIRA_API_TOKEN,
  GITHUB_TOKEN; no generator has been called, no temporary file created and no file
  changed.
\<close>

theorem missing_credentials_reported:
  assumes miss: "cache_miss E w sd ed r cs ce"
    and load: "\<not> isl (fst (load_config_with_overrides E (miss_state E w r cs ce) ov))"
    and some: "run_missing E gt \<noteq> []"
  shows "fst (generate_weekly_status E w gt sd ed r gs sp ov)
           = ''Error: Missing required credentials: '' @ join '', '' (run_missing E gt)
             @ ''\<newline>\<newline>''
             @ ''Please set these environment variables in your .env file or pass github_token as a parameter.''
         \<and> run_missing E gt
             = filter (\<lambda>name. \<not> given (credential E gt name))
                 [''JIRA_SERVER'', ''JIRA_EMAIL'', ''JIRA_API_TOKEN'', ''GITHUB_TOKEN'']
         \<and> calls (snd (generate_weekly_status E w gt sd ed r gs sp ov)) = calls w
         \<and> temps (snd (generate_weekly_status E w gt sd ed r gs sp ov)) = temps w
         \<and> files (snd (generate_weekly_status E w gt sd ed r gs sp ov)) = files w"
proof -
  have run: "generate_weekly_status E w gt sd ed r gs sp ov
             = (missing_credentials_text (run_missing E gt),
                snd (load_config_with_overrides E (miss_state E w r cs ce) ov))"
    using run_after_cache_miss [OF miss, of gt gs sp ov]
      fresh_missing_credentials [OF load some, of gs sp cs ce]
    by simp
  have names: "run_missing E gt
               = filter (\<lambda>name. \<not> given (credential E gt name))
                   [''JIRA_SERVER'', ''JIRA_EMAIL'', ''JIRA_API_TOKEN'', ''GITHUB_TOKEN'']"
    by (simp add: run_missing_def missing_creds_def credential_def)
  show ?thesis
    using run names load_config_with_overrides_frame [of E "miss_state E w r cs ce" ov]
      miss_state_frame [of E w r cs ce]
    by (simp add: missing_credentials_text_def)
qed

theorem missing_credentials_reported_witness:
  "fst (generate_weekly_status example_env_bare example_world (Some ''tok'') None None False
          True None (Some example_overrides))
     = ''Error: Missing required credentials: JIRA_SERVER, JIRA_EMAIL, JIRA_API_TOKEN\<newline>\<newline>''
       @ ''Please set these environment variables in your .env file or pass github_token as a parameter.''
   \<and> calls (snd (generate_weekly_status example_env_bare example_world (Some ''tok'') None None
                    False True None (Some example_overrides))) = []
   \<and> temps (snd (generate_weekly_status example_env_bare example_world (Some ''tok'') None None
                    False True None (Some example_overrides))) = 0
   \<and> files (snd (generate_weekly_status example_env_bare example_world (Some ''tok'') None None
                    False True None (Some example_overrides))) = files example_world"
proof -
  have miss: "cache_miss example_env_bare example_world None None False
                ''2025-11-08'' ''2025-11-01''"
    by code_simp
  have load: "\<not> isl (fst (load_config_with_overrides example_env_bare
                (miss_state example_env_bare example_world False ''2025-11-08'' ''2025-11-01'')
                (Some example_overrides)))"
    by code_simp
  have names: "run_missing example_env_bare (Some ''tok'')
               = [''JIRA_SERVER'', ''JIRA_EMAIL'', ''JIRA_API_TOKEN'']"
    by code_simp
  then have some: "run_missing example_env_bare (Some ''tok'') \<noteq> []" by simp
  have w: "calls example_world = []" "temps example_world = 0"
    by (simp_all add: example_world_def)
  from missing_credentials_reported [OF miss load some, of True None]
  show ?thesis
    unfolding names w by simp
qed

text \<open>
  The claim as stated fails on a run that misses all four credentials and passes the
  overrides \<open>{"jira": null}\<close>: \<open>load_config_with_overrides\<close> runs before the credentials
  are looked at, \<open>config['jira'].update(None)\<close> raises \<open>TypeError\<close>, and the run returns
  the general error instead of the list of missing credentials.
\<close>

theorem missing_credentials_counterexample:
  "cache_miss example_env_bare example_world (Some ''2024-01-10'') None True
     ''2024-01-10'' ''2024-01-03''
   \<and> run_missing example_env_bare None
       = [''JIRA_SERVER'', ''JIRA_EMAIL'', ''JIRA_API_TOKEN'', ''GITHUB_TOKEN'']
   \<and> fst (generate_weekly_status example_env_bare example_world None (Some ''2024-01-10'') None
            True True None (Some [(''jira'', VNull)]))
       = ''Error generating weekly status: '' @ [CHR 0x27] @ ''NoneType'' @ [CHR 0x27]
         @ '' object is not iterable''
   \<and> fst (generate_weekly_status example_env_bare example_world None (Some ''2024-01-10'') None
            True True None (Some [(''jira'', VNull)]))
       \<noteq> missing_credentials_text
           [''JIRA_SERVER'', ''JIRA_EMAIL'', ''JIRA_API_TOKEN'', ''GITHUB_TOKEN'']"
  by code_simp

text \<open>
  Claim C5, on a run that leaves the aggregation stage with an exception. The overrides
  name both generators, so the run makes two temporary files. The first is written,
  returned and registered. The second is made by \<open>mkstemp\<close>, but the disk is full when
  the configuration is written to it: \<open>create_temp_config_file\<close> raises, the path never
  reaches \<open>temp_files_to_cleanup\<close>, and the \<open>finally\<close> block removes the first file only.
  The run returns the general error, and the second file is still there, though nothing
  has kept it from being removed and no warning speaks of it. The claim, that every
  temporary file the run has created is removed on every exit, does not hold of this
  code.
\<close>

theorem temp_file_left_behind:
  "fst (generate_weekly_status example_env_tmp_full example_world None (Some ''2024-01-10'')
          None True False None (Some example_overrides_both))
     = ''Error generating weekly status: No space left on device''
   \<and> fst (snd (try_body example_env_tmp_full example_world (Some example_overrides_both)
                  ''https://jira.example'' ''a@b.c'' ''t1'' ''t2'' ''2024-01-10''
                  ''2024-01-03''))
       = [''/tmp/jira_mcp_0.yaml'']
   \<and> temps (snd (generate_weekly_status example_env_tmp_full example_world None
                    (Some ''2024-01-10'') None True False None (Some example_overrides_both)))
       = 2
   \<and> files (snd (generate_weekly_status example_env_tmp_full example_world None
                    (Some ''2024-01-10'') None True False None (Some example_overrides_both)))
         ''/tmp/jira_mcp_0.yaml'' = None
   \<and> files example_world ''/tmp/github_mcp_1.yaml'' = None
   \<and> files (snd (generate_weekly_status example_env_tmp_full example_world None
                    (Some ''2024-01-10'') None True False None (Some example_overrides_both)))
         ''/tmp/github_mcp_1.yaml'' = Some []
   \<and> unlink_error example_env_tmp_full ''/tmp/github_mcp_1.yaml'' = None
   \<and> filter (\<lambda>(l, m). l = WARNING)
         (log (snd (generate_weekly_status example_env_tmp_full example_world None
                      (Some ''2024-01-10'') None True False None (Some example_overrides_both))))
       = []
   \<and> calls (snd (generate_weekly_status example_env_tmp_full example_world None
                    (Some ''2024-01-10'') None True False None (Some example_overrides_both)))
       = []"
  by code_simp

text \<open>
  Claim C8. For every run that reaches the saving of the report, the combined report
  built and possibly enriched, in which \<open>save_report\<close> raises: the pipeline returns the
  text \<open>Error: Failed to save report:\<close> with the message of the failure and, after
  \<open>Report content:\<close>, the whole combined report; what it returns is not a success text.
\<close>

theorem save_failure_reported:
  assumes reach: "reaches_aggregation E w gt sd ed r ov cs ce w2"
    and agg: "aggregate E w2 ov (opt_str (getenv E ''JIRA_SERVER''))
                (opt_str (getenv E ''JIRA_EMAIL'')) (opt_str (getenv E ''JIRA_API_TOKEN''))
                (opt_str (effective_github_token E gt)) cs ce = (Inr (jira_report, github_report), w3)"
    and enrich: "add_summary E w3 gs sp
                   (combined_report_text cs ce jira_report github_report (stamp E))
                 = (combined_report, w4)"
    and fail: "fst (save_report E w4 combined_report cs ce) = Inl e"
  shows "fst (generate_weekly_status E w gt sd ed r gs sp ov)
           = ''Error: Failed to save report: '' @ str_exn e @ ''\<newline>\<newline>''
             @ ''Report content:\<newline>\<newline>'' @ combined_report
         \<and> (\<forall>p c. fst (generate_weekly_status E w gt sd ed r gs sp ov)
                    \<noteq> success_text cs ce p c)"
proof -
  have "generate_weekly_status E w gt sd ed r gs sp ov = persist E w4 combined_report cs ce"
    using run_reaches_aggregation [OF reach, of gs sp] agg enrich by (simp add: finish_def)
  then have "fst (generate_weekly_status E w gt sd ed r gs sp ov)
             = save_error_text e combined_report"
    using persist_failed [OF fail] by simp
  then show ?thesis
    using save_error_is_not_success [of e combined_report cs ce]
    by (simp add: save_error_text_def)
qed

theorem save_failure_reported_witness:
  "fst (generate_weekly_status example_env_disk_full example_world None (Some ''2024-01-10'')
          None True False None None)
     = ''Error: Failed to save report: disk full\<newline>\<newline>Report content:\<newline>\<newline>''
       @ combined_report_text ''2024-01-10'' ''2024-01-03''
           ''**Error generating Jira report:** boom\<newline>\<newline>'' ''3 pull requests''
           ''2025-11-08 09:30:00''"
proof -
  let ?E = "example_env_disk_full"
  let ?w2 = "snd (load_config_with_overrides ?E
                    (miss_state ?E example_world True ''2024-01-10'' ''2024-01-03'') None)"
  let ?a = "aggregate ?E ?w2 None (opt_str (getenv ?E ''JIRA_SERVER''))
              (opt_str (getenv ?E ''JIRA_EMAIL'')) (opt_str (getenv ?E ''JIRA_API_TOKEN''))
              (opt_str (effective_github_token ?E None)) ''2024-01-10'' ''2024-01-03''"
  let ?c = "combined_report_text ''2024-01-10'' ''2024-01-03''
              ''**Error generating Jira report:** boom\<newline>\<newline>'' ''3 pull requests''
              (stamp ?E)"
  let ?s = "add_summary ?E (snd ?a) False None ?c"
  have miss: "cache_miss ?E example_world (Some ''2024-01-10'') None True
                ''2024-01-10'' ''2024-01-03''"
    by code_simp
  have load: "\<not> isl (fst (load_config_with_overrides ?E
                (miss_state ?E example_world True ''2024-01-10'' ''2024-01-03'') None))"
    by code_simp
  have creds: "run_missing ?E None = []" by code_simp
  have imp: "import_error ?E = None" by (simp add: example_env_disk_full_def example_env_def)
  have reach: "reaches_aggregation ?E example_world None (Some ''2024-01-10'') None
                 True None ''2024-01-10'' ''2024-01-03'' ?w2"
    unfolding reaches_aggregation_def using miss load creds imp by simp
  have a1: "fst ?a = Inr (''**Error generating Jira report:** boom\<newline>\<newline>'',
                          ''3 pull requests'')"
    by code_simp
  have agg: "?a = (Inr (''**Error generating Jira report:** boom\<newline>\<newline>'',
                        ''3 pull requests''), snd ?a)"
    using a1 by (simp add: prod_eq_iff)
  have s1: "fst ?s = ?c" by (simp add: add_summary_def)
  have enrich: "?s = (?c, snd ?s)" using s1 by (simp add: prod_eq_iff)
  have fail: "fst (save_report ?E (snd ?s) ?c ''2024-01-10'' ''2024-01-03'')
              = Inl (OSError ''disk full'')"
    by (simp add: save_report_def get_report_path_def example_env_disk_full_def example_env_def)
  have st: "stamp ?E = ''2025-11-08 09:30:00''"
    by (simp add: example_env_disk_full_def example_env_def)
  from save_failure_reported [OF reach agg enrich fail]
  show ?thesis
    unfolding st by simp
qed

text \<open>
  Claim C9, on the default template. With summary generation enabled and no prompt
  supplied, the template is the default one and \<open>str.format\<close> does fill its placeholder
  with the combined report, but the result is dropped: the section appended to the
  report wraps the template itself, with \<open>{report_content}\<close> still in it. The claim,
  that the section wraps the filled template, does not hold of this code.
\<close>

theorem summary_wraps_unfilled_template:
  "str_format example_env DEFAULT_SUMMARY_PROMPT ''REPORT''
     = Inr (''Based on the following weekly team report, generate an executive summary highlighting:\<newline>\<newline>''
            @ ''1. Key Accomplishments: Major milestones and completed work\<newline>''
            @ ''2. Team Velocity: Overall productivity and throughput metrics\<newline>''
            @ ''3. Blockers & Risks: Issues requiring attention or escalation\<newline>''
            @ ''4. Notable Trends: Patterns in team performance or workload\<newline>\<newline>''
            @ ''Keep the summary concise (3-5 paragraphs) and action-oriented.\<newline>\<newline>''
            @ ''---\<newline>\<newline>''
            @ ''REPORT\<newline>\<newline>''
            @ ''---\<newline>\<newline>''
            @ ''Please provide the executive summary:'')
   \<and> fst (add_summary example_env example_world True None ''REPORT'')
       = ''REPORT'' @ summary_text DEFAULT_SUMMARY_PROMPT
   \<and> fst (add_summary example_env example_world True None ''REPORT'')
       \<noteq> ''REPORT''
         @ summary_text
             (''Based on the following weekly team report, generate an executive summary highlighting:\<newline>\<newline>''
              @ ''1. Key Accomplishments: Major milestones and completed work\<newline>''
              @ ''2. Team Velocity: Overall productivity and throughput metrics\<newline>''
              @ ''3. Blockers & Risks: Issues requiring attention or escalation\<newline>''
              @ ''4. Notable Trends: Patterns in team performance or workload\<newline>\<newline>''
              @ ''Keep the summary concise (3-5 paragraphs) and action-oriented.\<newline>\<newline>''
              @ ''---\<newline>\<newline>''
              @ ''REPORT\<newline>\<newline>''
              @ ''---\<newline>\<newline>''
              @ ''Please provide the executive summary:'')
   \<and> files (snd (generate_weekly_status example_env example_world None (Some ''2024-01-10'')
                    None True True None None))
         ''/srv/Reports/Weekly_Report_2024-01-10_to_2024-01-03.md''
       = Some (combined_report_text ''2024-01-10'' ''2024-01-03''
                 ''**Error generating Jira report:** boom\<newline>\<newline>'' ''3 pull requests''
                 ''2025-11-08 09:30:00''
               @ summary_text DEFAULT_SUMMARY_PROMPT)"
  by code_simp

end
